theory Spec2Isabelle
  imports Main "HOL-Library.Multiset"
begin

section \<open>Codes and wire messages\<close>

text \<open>
  The transport codes of \<^verbatim>\<open>google.golang.org/grpc/codes\<close>, in the order of their
  numbers 0 to 16.
\<close>

datatype Code =
    OK | Canceled | Unknown | InvalidArgument | DeadlineExceeded | NotFound
  | AlreadyExists | PermissionDenied | ResourceExhausted | FailedPrecondition
  | Aborted | OutOfRange | Unimplemented | Internal | Unavailable | DataLoss
  | Unauthenticated

fun Code_String :: "Code \<Rightarrow> string" where
  "Code_String OK = ''OK''"
| "Code_String Canceled = ''Canceled''"
| "Code_String Unknown = ''Unknown''"
| "Code_String InvalidArgument = ''InvalidArgument''"
| "Code_String DeadlineExceeded = ''DeadlineExceeded''"
| "Code_String NotFound = ''NotFound''"
| "Code_String AlreadyExists = ''AlreadyExists''"
| "Code_String PermissionDenied = ''PermissionDenied''"
| "Code_String ResourceExhausted = ''ResourceExhausted''"
| "Code_String FailedPrecondition = ''FailedPrecondition''"
| "Code_String Aborted = ''Aborted''"
| "Code_String OutOfRange = ''OutOfRange''"
| "Code_String Unimplemented = ''Unimplemented''"
| "Code_String Internal = ''Internal''"
| "Code_String Unavailable = ''Unavailable''"
| "Code_String DataLoss = ''DataLoss''"
| "Code_String Unauthenticated = ''Unauthenticated''"

text \<open>
  The enumeration \<^verbatim>\<open>errorspb.AppErrorCode\<close> of \<^verbatim>\<open>api/proto/errors/v1/errors.proto\<close>,
  as the protocol documentation of the repository lists it; \<open>AppErrorCode_String\<close> is
  the generated \<^verbatim>\<open>String()\<close> method, which prints the name of the value.
\<close>

datatype AppErrorCode =
    APP_ERROR_CODE_UNSPECIFIED
  | VALIDATION_FAILED | REQUIRED_FIELD | TOO_SHORT | TOO_LONG | INVALID_FORMAT
  | MUST_BE_FUTURE | INVALID_VALUE | DUPLICATE_TAG | INVALID_TAG_FORMAT
  | OVERDUE_COMPLETION | EMPTY_BATCH | BATCH_TOO_LARGE | DUPLICATE_TITLE
  | RESOURCE_NOT_FOUND | RESOURCE_CONFLICT
  | AUTHENTICATION_FAILED | PERMISSION_DENIED
  | RATE_LIMIT_EXCEEDED | SERVICE_UNAVAILABLE
  | INTERNAL_ERROR

fun AppErrorCode_String :: "AppErrorCode \<Rightarrow> string" where
  "AppErrorCode_String APP_ERROR_CODE_UNSPECIFIED = ''APP_ERROR_CODE_UNSPECIFIED''"
| "AppErrorCode_String VALIDATION_FAILED = ''VALIDATION_FAILED''"
| "AppErrorCode_String REQUIRED_FIELD = ''REQUIRED_FIELD''"
| "AppErrorCode_String TOO_SHORT = ''TOO_SHORT''"
| "AppErrorCode_String TOO_LONG = ''TOO_LONG''"
| "AppErrorCode_String INVALID_FORMAT = ''INVALID_FORMAT''"
| "AppErrorCode_String MUST_BE_FUTURE = ''MUST_BE_FUTURE''"
| "AppErrorCode_String INVALID_VALUE = ''INVALID_VALUE''"
| "AppErrorCode_String DUPLICATE_TAG = ''DUPLICATE_TAG''"
| "AppErrorCode_String INVALID_TAG_FORMAT = ''INVALID_TAG_FORMAT''"
| "AppErrorCode_String OVERDUE_COMPLETION = ''OVERDUE_COMPLETION''"
| "AppErrorCode_String EMPTY_BATCH = ''EMPTY_BATCH''"
| "AppErrorCode_String BATCH_TOO_LARGE = ''BATCH_TOO_LARGE''"
| "AppErrorCode_String DUPLICATE_TITLE = ''DUPLICATE_TITLE''"
| "AppErrorCode_String RESOURCE_NOT_FOUND = ''RESOURCE_NOT_FOUND''"
| "AppErrorCode_String RESOURCE_CONFLICT = ''RESOURCE_CONFLICT''"
| "AppErrorCode_String AUTHENTICATION_FAILED = ''AUTHENTICATION_FAILED''"
| "AppErrorCode_String PERMISSION_DENIED = ''PERMISSION_DENIED''"
| "AppErrorCode_String RATE_LIMIT_EXCEEDED = ''RATE_LIMIT_EXCEEDED''"
| "AppErrorCode_String SERVICE_UNAVAILABLE = ''SERVICE_UNAVAILABLE''"
| "AppErrorCode_String INTERNAL_ERROR = ''INTERNAL_ERROR''"

text \<open>
  The validation group of the taxonomy: the values numbered 1 to 13.
\<close>

fun is_validation_code :: "AppErrorCode \<Rightarrow> bool" where
  "is_validation_code VALIDATION_FAILED = True"
| "is_validation_code REQUIRED_FIELD = True"
| "is_validation_code TOO_SHORT = True"
| "is_validation_code TOO_LONG = True"
| "is_validation_code INVALID_FORMAT = True"
| "is_validation_code MUST_BE_FUTURE = True"
| "is_validation_code INVALID_VALUE = True"
| "is_validation_code DUPLICATE_TAG = True"
| "is_validation_code INVALID_TAG_FORMAT = True"
| "is_validation_code OVERDUE_COMPLETION = True"
| "is_validation_code EMPTY_BATCH = True"
| "is_validation_code BATCH_TOO_LARGE = True"
| "is_validation_code DUPLICATE_TITLE = True"
| "is_validation_code _ = False"

text \<open>
  A point in time (\<^verbatim>\<open>timestamppb.Timestamp\<close>, \<^verbatim>\<open>time.Time\<close>): only the order of
  two times and their identity are used. The clock is an argument of every function that
  reads it.
\<close>

type_synonym Timestamp = int

text \<open>
  \<^verbatim>\<open>fmt.Sprintf("%d", n)\<close> for a length or an index, which are never negative.
\<close>

fun Sprintf_d :: "nat \<Rightarrow> string" where
  "Sprintf_d n =
     (if n < 10 then [''0123456789'' ! n]
      else Sprintf_d (n div 10) @ [''0123456789'' ! (n mod 10)])"

declare Sprintf_d.simps [simp del]

text \<open>
  \<^verbatim>\<open>errorspb.FieldViolation\<close> and \<^verbatim>\<open>errorspb.ErrorDetail\<close>. A value of
  \<^verbatim>\<open>anypb.Any\<close> in the extensions is its type URL and its bytes; the extensions are
  the entries of the Go map.
\<close>

record FieldViolation =
  fv_Field :: string
  fv_Description :: string
  fv_Code :: string

datatype Any = Any string string

record ErrorDetail =
  ed_Code :: string
  ed_Title :: string
  ed_Detail :: string
  ed_FieldViolations :: "FieldViolation list"
  ed_TraceId :: string
  ed_Timestamp :: "Timestamp option"
  ed_Instance :: string
  ed_Extensions :: "(string \<times> Any) list"

text \<open>
  The details a status carries: the application's \<^verbatim>\<open>ErrorDetail\<close>, the generic
  \<^verbatim>\<open>errdetails.BadRequest\<close> (a list of field and description pairs), or a message of
  any other type, kept by its type URL.
\<close>

datatype StatusDetail =
    ErrorDetailD ErrorDetail
  | BadRequestD "(string \<times> string) list"
  | OtherDetailD string

record Status =
  st_Code :: Code
  st_Message :: string
  st_Details :: "StatusDetail list"

text \<open>
  \<^verbatim>\<open>status.New\<close> and \<^verbatim>\<open>Status.WithDetails\<close> of grpc-go. \<^verbatim>\<open>WithDetails\<close> refuses a status
  whose code is \<^verbatim>\<open>OK\<close>: it returns a nil status and an error, which
  \<^verbatim>\<open>ToGRPCStatus\<close> drops, so the nil status is \<open>None\<close> here. Otherwise it marshals
  the details and appends them; the strings of the program are constants of the code
  and fields of decoded messages, which are valid UTF-8, so marshalling succeeds.
\<close>

definition status_New :: "Code \<Rightarrow> string \<Rightarrow> Status" where
  "status_New c msg = \<lparr>st_Code = c, st_Message = msg, st_Details = []\<rparr>"

definition WithDetails :: "Status \<Rightarrow> StatusDetail list \<Rightarrow> Status option" where
  "WithDetails s details =
     (if st_Code s = OK then None
      else Some (s\<lparr>st_Details := st_Details s @ details\<rparr>))"

section \<open>The error model\<close>

text \<open>
  \<^verbatim>\<open>AppError\<close>. \<^verbatim>\<open>CausedBy\<close> holds a Go error of which the program only ever prints
  the text (\<^verbatim>\<open>%v\<close>): it is that text, and \<open>None\<close> is the nil error.
\<close>

record AppError =
  GRPCCode :: Code
  AppCode :: AppErrorCode
  Title :: string
  Detail :: string
  FieldViolations :: "FieldViolation list"
  TraceID :: string
  Instance :: string
  Extensions :: "(string \<times> Any) list"
  CausedBy :: "string option"

definition AppError_Error :: "AppError \<Rightarrow> string" where
  "AppError_Error e =
     ''gRPC Code: '' @ Code_String (GRPCCode e) @ '', App Code: '' @
     AppErrorCode_String (AppCode e) @ '', Title: '' @ Title e @ '', Detail: '' @ Detail e"

definition ToGRPCStatus :: "Timestamp \<Rightarrow> AppError \<Rightarrow> Status option" where
  "ToGRPCStatus now e =
     (let st = status_New (GRPCCode e) (Title e);
          errorDetail = \<lparr>ed_Code = AppErrorCode_String (AppCode e),
                         ed_Title = Title e,
                         ed_Detail = Detail e,
                         ed_FieldViolations = FieldViolations e,
                         ed_TraceId = TraceID e,
                         ed_Timestamp = Some now,
                         ed_Instance = Instance e,
                         ed_Extensions = Extensions e\<rparr>
      in if GRPCCode e = InvalidArgument \<and> length (FieldViolations e) > 0
         then WithDetails st
                [BadRequestD (map (\<lambda>fv. (fv_Field fv, fv_Description fv)) (FieldViolations e)),
                 ErrorDetailD errorDetail]
         else WithDetails st [ErrorDetailD errorDetail])"

definition NewValidationFailed :: "FieldViolation list \<Rightarrow> string \<Rightarrow> AppError" where
  "NewValidationFailed violations traceID =
     \<lparr>GRPCCode = InvalidArgument,
      AppCode = VALIDATION_FAILED,
      Title = ''Validation Failed'',
      Detail = ''The request contains '' @ Sprintf_d (length violations) @ '' validation errors'',
      FieldViolations = violations,
      TraceID = traceID,
      Instance = '''',
      Extensions = [],
      CausedBy = None\<rparr>"

definition NewNotFound :: "string \<Rightarrow> string \<Rightarrow> string \<Rightarrow> AppError" where
  "NewNotFound resource ident traceID =
     \<lparr>GRPCCode = NotFound,
      AppCode = RESOURCE_NOT_FOUND,
      Title = ''Resource Not Found'',
      Detail = resource @ '' with ID '' @ [CHR 0x27] @ ident @ [CHR 0x27] @ '' was not found.'',
      FieldViolations = [],
      TraceID = traceID,
      Instance = '''',
      Extensions = [],
      CausedBy = None\<rparr>"

definition NewConflict :: "string \<Rightarrow> string \<Rightarrow> string \<Rightarrow> AppError" where
  "NewConflict resource reason traceID =
     \<lparr>GRPCCode = AlreadyExists,
      AppCode = RESOURCE_CONFLICT,
      Title = ''Resource Conflict'',
      Detail = ''Conflict creating '' @ resource @ '': '' @ reason,
      FieldViolations = [],
      TraceID = traceID,
      Instance = '''',
      Extensions = [],
      CausedBy = None\<rparr>"

definition NewInternal :: "string \<Rightarrow> string \<Rightarrow> string option \<Rightarrow> AppError" where
  "NewInternal message traceID causedBy =
     \<lparr>GRPCCode = Internal,
      AppCode = INTERNAL_ERROR,
      Title = ''Internal Server Error'',
      Detail = message,
      FieldViolations = [],
      TraceID = traceID,
      Instance = '''',
      Extensions = [],
      CausedBy = causedBy\<rparr>"

definition NewPermissionDenied :: "string \<Rightarrow> string \<Rightarrow> string \<Rightarrow> AppError" where
  "NewPermissionDenied resource action traceID =
     \<lparr>GRPCCode = PermissionDenied,
      AppCode = PERMISSION_DENIED,
      Title = ''Permission Denied'',
      Detail = ''You don'' @ [CHR 0x27] @ ''t have permission to '' @ action @ '' '' @ resource,
      FieldViolations = [],
      TraceID = traceID,
      Instance = '''',
      Extensions = [],
      CausedBy = None\<rparr>"

definition NewServiceUnavailable :: "string \<Rightarrow> string \<Rightarrow> AppError" where
  "NewServiceUnavailable message traceID =
     \<lparr>GRPCCode = Unavailable,
      AppCode = SERVICE_UNAVAILABLE,
      Title = ''Service Unavailable'',
      Detail = message,
      FieldViolations = [],
      TraceID = traceID,
      Instance = '''',
      Extensions = [],
      CausedBy = None\<rparr>"

definition NewRequiredField :: "string \<Rightarrow> string \<Rightarrow> string \<Rightarrow> AppError" where
  "NewRequiredField field message traceID =
     \<lparr>GRPCCode = InvalidArgument,
      AppCode = VALIDATION_FAILED,
      Title = ''Validation Failed'',
      Detail = ''The request contains validation errors'',
      FieldViolations =
        [\<lparr>fv_Field = field,
          fv_Description = message,
          fv_Code = AppErrorCode_String REQUIRED_FIELD\<rparr>],
      TraceID = traceID,
      Instance = '''',
      Extensions = [],
      CausedBy = None\<rparr>"

text \<open>
  The errors the program builds: every \<^verbatim>\<open>AppError\<close> of the service and of the validation
  package comes from one of the seven constructors, and the validation package calls
  \<^verbatim>\<open>NewValidationFailed\<close> with the violations it has collected.
\<close>

inductive constructed :: "AppError \<Rightarrow> bool" where
  by_NewValidationFailed: "constructed (NewValidationFailed violations traceID)"
| by_NewNotFound: "constructed (NewNotFound resource ident traceID)"
| by_NewConflict: "constructed (NewConflict resource reason traceID)"
| by_NewInternal: "constructed (NewInternal message traceID causedBy)"
| by_NewPermissionDenied: "constructed (NewPermissionDenied resource action traceID)"
| by_NewServiceUnavailable: "constructed (NewServiceUnavailable message traceID)"
| by_NewRequiredField: "constructed (NewRequiredField field message traceID)"

section \<open>Go errors and the RPC error interceptor\<close>

text \<open>
  The error values that reach the translators: an \<^verbatim>\<open>*AppError\<close>, an error that carries
  a status (what \<^verbatim>\<open>Status.Err\<close> returns), or any other error, of which only the text is
  used. The nil error is \<open>None\<close>.
\<close>

datatype go_error = AppErr AppError | StatusErr Status | PlainErr string

fun error_Error :: "go_error \<Rightarrow> string" where
  "error_Error (AppErr e) = AppError_Error e"
| "error_Error (StatusErr s) =
     ''rpc error: code = '' @ Code_String (st_Code s) @ '' desc = '' @ st_Message s"
| "error_Error (PlainErr m) = m"

text \<open>
  \<^verbatim>\<open>Status.Err\<close> (nil for a nil status and for the code \<^verbatim>\<open>OK\<close>) and
  \<^verbatim>\<open>status.FromError\<close> on an error that is not nil: the status of a status error, and
  an \<^verbatim>\<open>Unknown\<close> status made of the error's text otherwise.
\<close>

fun Status_Err :: "Status option \<Rightarrow> go_error option" where
  "Status_Err None = None"
| "Status_Err (Some s) = (if st_Code s = OK then None else Some (StatusErr s))"

fun FromError :: "go_error \<Rightarrow> Status \<times> bool" where
  "FromError (StatusErr s) = (s, True)"
| "FromError err = (status_New Unknown (error_Error err), False)"

text \<open>
  \<^verbatim>\<open>UnaryErrorInterceptor\<close>. The result is the pair the interceptor returns and the
  lines it writes to the server log.
\<close>

definition UnaryErrorInterceptor ::
  "Timestamp \<Rightarrow> 'q \<Rightarrow> ('q \<Rightarrow> 'r option \<times> go_error option)
   \<Rightarrow> ('r option \<times> go_error option) \<times> string list" where
  "UnaryErrorInterceptor now req handler =
     (case handler req of
        (resp, None) \<Rightarrow> ((resp, None), [])
      | (resp, Some err) \<Rightarrow>
          (case err of
             AppErr appErr \<Rightarrow>
               ((None, Status_Err (ToGRPCStatus now appErr)),
                (case CausedBy appErr of
                   None \<Rightarrow> []
                 | Some cause \<Rightarrow>
                     [''ERROR: '' @ Title appErr @ '', Original cause: '' @ cause]))
           | StatusErr s \<Rightarrow> ((None, Some err), [])
           | PlainErr m \<Rightarrow>
               ((None,
                 Status_Err (ToGRPCStatus now
                   (NewInternal ''An unexpected error occurred'' '''' (Some (error_Error err))))),
                [''UNEXPECTED ERROR: '' @ error_Error err])))"

section \<open>The HTTP error translator\<close>

text \<open>
  A JSON value, and the bytes written to a response: the encoding of a JSON value, or
  any other bytes.
\<close>

datatype json =
    JNull | JString string | JInt int | JTime Timestamp
  | JArray "json list" | JObject "(string \<times> json) list"

datatype Bytes = JSONBytes json | RawBytes string

text \<open>
  The request: \<open>Header r name\<close> is \<^verbatim>\<open>r.Header.Get(name)\<close>, the empty string when the
  request has no such header.
\<close>

record Request =
  Header :: "string \<Rightarrow> string"
  URL_Path :: string

text \<open>
  The \<^verbatim>\<open>http.ResponseWriter\<close> that the middleware wraps: the headers set on it and the
  calls of \<^verbatim>\<open>WriteHeader\<close> and \<^verbatim>\<open>Write\<close> it has received, in order.
\<close>

datatype rw_call = WriteHeader_call int | Write_call Bytes

record http_ResponseWriter =
  rw_Header :: "(string \<times> string) list"
  rw_calls :: "rw_call list"

record responseWriter =
  ResponseWriter :: http_ResponseWriter
  wr_request :: Request
  wr_traceID :: string
  statusCode :: int
  written :: bool

definition Header_Set :: "string \<Rightarrow> string \<Rightarrow> responseWriter \<Rightarrow> responseWriter" where
  "Header_Set k v w =
     w\<lparr>ResponseWriter :=
         (ResponseWriter w)\<lparr>rw_Header := (k, v) # filter (\<lambda>kv. fst kv \<noteq> k) (rw_Header (ResponseWriter w))\<rparr>\<rparr>"

definition WriteHeader :: "int \<Rightarrow> responseWriter \<Rightarrow> responseWriter" where
  "WriteHeader code w =
     (if \<not> written w
      then w\<lparr>statusCode := code,
             ResponseWriter :=
               (ResponseWriter w)\<lparr>rw_calls := rw_calls (ResponseWriter w) @ [WriteHeader_call code]\<rparr>,
             written := True\<rparr>
      else w)"

definition Write :: "Bytes \<Rightarrow> responseWriter \<Rightarrow> responseWriter" where
  "Write b w =
     (let w' = (if \<not> written w then WriteHeader 200 w else w)
      in w'\<lparr>ResponseWriter :=
              (ResponseWriter w')\<lparr>rw_calls := rw_calls (ResponseWriter w') @ [Write_call b]\<rparr>\<rparr>)"

text \<open>
  \<^verbatim>\<open>runtime.HTTPStatusFromCode\<close> of grpc-gateway.
\<close>

fun HTTPStatusFromCode :: "Code \<Rightarrow> int" where
  "HTTPStatusFromCode OK = 200"
| "HTTPStatusFromCode Canceled = 499"
| "HTTPStatusFromCode Unknown = 500"
| "HTTPStatusFromCode InvalidArgument = 400"
| "HTTPStatusFromCode DeadlineExceeded = 504"
| "HTTPStatusFromCode NotFound = 404"
| "HTTPStatusFromCode AlreadyExists = 409"
| "HTTPStatusFromCode PermissionDenied = 403"
| "HTTPStatusFromCode Unauthenticated = 401"
| "HTTPStatusFromCode ResourceExhausted = 429"
| "HTTPStatusFromCode FailedPrecondition = 400"
| "HTTPStatusFromCode Aborted = 409"
| "HTTPStatusFromCode OutOfRange = 400"
| "HTTPStatusFromCode Unimplemented = 501"
| "HTTPStatusFromCode Internal = 500"
| "HTTPStatusFromCode Unavailable = 503"
| "HTTPStatusFromCode DataLoss = 500"

definition getTypeForCode :: "string \<Rightarrow> string" where
  "getTypeForCode code =
     (if code = AppErrorCode_String VALIDATION_FAILED
        then ''https://api.example.com/errors/validation-failed''
      else if code = AppErrorCode_String RESOURCE_NOT_FOUND
        then ''https://api.example.com/errors/resource-not-found''
      else if code = AppErrorCode_String RESOURCE_CONFLICT
        then ''https://api.example.com/errors/resource-conflict''
      else if code = AppErrorCode_String PERMISSION_DENIED
        then ''https://api.example.com/errors/permission-denied''
      else if code = AppErrorCode_String INTERNAL_ERROR
        then ''https://api.example.com/errors/internal-error''
      else if code = AppErrorCode_String SERVICE_UNAVAILABLE
        then ''https://api.example.com/errors/service-unavailable''
      else ''https://api.example.com/errors/unknown'')"

text \<open>
  The entry of the \<^verbatim>\<open>errors\<close> array for one field violation, in both translators.
\<close>

definition violation_json :: "FieldViolation \<Rightarrow> json" where
  "violation_json fv =
     JObject [(''field'', JString (fv_Field fv)),
              (''code'', JString (fv_Code fv)),
              (''message'', JString (fv_Description fv))]"

text \<open>
  \<^verbatim>\<open>writeAppErrorResponse\<close>. The response is a Go map, which the encoder writes
  with its keys sorted: the list below holds its entries in the order the code adds them.
\<close>

definition writeAppErrorResponse ::
  "Timestamp \<Rightarrow> responseWriter \<Rightarrow> AppError \<Rightarrow> string \<Rightarrow> responseWriter" where
  "writeAppErrorResponse now w appErr inst =
     (let status = HTTPStatusFromCode (GRPCCode appErr);
          response =
            [(''type'', JString (getTypeForCode (AppErrorCode_String (AppCode appErr)))),
             (''title'', JString (Title appErr)),
             (''status'', JInt status),
             (''detail'', JString (Detail appErr)),
             (''traceId'', JString (TraceID appErr)),
             (''timestamp'', JTime now)]
            @ (if inst \<noteq> [] then [(''instance'', JString inst)] else [])
            @ (if length (FieldViolations appErr) > 0
               then [(''errors'', JArray (map violation_json (FieldViolations appErr)))]
               else [])
      in Write (JSONBytes (JObject response))
           (WriteHeader status
             (Header_Set ''Content-Type'' ''application/problem+json'' w)))"

text \<open>
  \<^verbatim>\<open>http.Error\<close> of net/http, which first deletes the \<^verbatim>\<open>Content-Length\<close> header, and
  \<^verbatim>\<open>writeErrorResponse\<close>.
\<close>

definition Header_Del :: "string \<Rightarrow> responseWriter \<Rightarrow> responseWriter" where
  "Header_Del k w =
     w\<lparr>ResponseWriter :=
         (ResponseWriter w)\<lparr>rw_Header := filter (\<lambda>kv. fst kv \<noteq> k) (rw_Header (ResponseWriter w))\<rparr>\<rparr>"

definition http_Error :: "responseWriter \<Rightarrow> string \<Rightarrow> int \<Rightarrow> responseWriter" where
  "http_Error w msg code =
     Write (RawBytes (msg @ [CHR 0x0A]))
       (WriteHeader code
         (Header_Set ''X-Content-Type-Options'' ''nosniff''
           (Header_Set ''Content-Type'' ''text/plain; charset=utf-8''
             (Header_Del ''Content-Length'' w))))"

definition writeErrorResponse :: "Timestamp \<Rightarrow> responseWriter \<Rightarrow> go_error \<Rightarrow> responseWriter" where
  "writeErrorResponse now w err =
     (case err of
        AppErr appErr \<Rightarrow> writeAppErrorResponse now w appErr []
      | _ \<Rightarrow> http_Error w (error_Error err) 500)"

text \<open>
  \<^verbatim>\<open>handlePanic\<close>: the recovered value is not used; the stack trace goes to the
  server's standard error only.
\<close>

definition handlePanic :: "Timestamp \<Rightarrow> responseWriter \<Rightarrow> responseWriter" where
  "handlePanic now w =
     writeErrorResponse now w
       (AppErr (NewInternal ''An unexpected error occurred. Please try again later.''
          (wr_traceID w) None))"

text \<open>
  \<^verbatim>\<open>CustomHTTPError\<close>. \<open>span\<close> is the trace id of the context's span when that span
  is valid, \<open>uuid\<close> the identifier \<^verbatim>\<open>uuid.New\<close> would draw, and \<open>anyJSON\<close> the
  conversion of an extension to JSON (\<^verbatim>\<open>protojson.Marshal\<close>, then
  \<^verbatim>\<open>json.Unmarshal\<close>), \<open>None\<close> when either step fails. The encoder cannot fail
  on the response built here, so the branch that answers an encoding failure is absent.
\<close>

fun firstErrorDetail :: "StatusDetail list \<Rightarrow> ErrorDetail option" where
  "firstErrorDetail [] = None"
| "firstErrorDetail (ErrorDetailD ed # ds) = Some ed"
| "firstErrorDetail (_ # ds) = firstErrorDetail ds"

fun convertExtensions :: "(Any \<Rightarrow> json option) \<Rightarrow> (string \<times> Any) list \<Rightarrow> (string \<times> json) list" where
  "convertExtensions anyJSON [] = []"
| "convertExtensions anyJSON ((k, v) # kvs) =
     (case anyJSON v of
        Some jsonData \<Rightarrow> (k, jsonData) # convertExtensions anyJSON kvs
      | None \<Rightarrow> convertExtensions anyJSON kvs)"

definition CustomHTTPError ::
  "(Any \<Rightarrow> json option) \<Rightarrow> Timestamp \<Rightarrow> string \<Rightarrow> string option
   \<Rightarrow> responseWriter \<Rightarrow> Request \<Rightarrow> go_error \<Rightarrow> responseWriter" where
  "CustomHTTPError anyJSON now uuid span w r err =
     (let traceID =
            (if Header r ''X-Trace-ID'' = []
             then (case span of Some t \<Rightarrow> t | None \<Rightarrow> uuid)
             else Header r ''X-Trace-ID'');
          st = fst (FromError err)
      in case firstErrorDetail (st_Details st) of
           Some ed \<Rightarrow>
             (let errorDetail = ed\<lparr>ed_TraceId := traceID, ed_Instance := URL_Path r\<rparr>;
                  w1 = WriteHeader (HTTPStatusFromCode (st_Code st))
                         (Header_Set ''Content-Type'' ''application/problem+json'' w);
                  extensions = convertExtensions anyJSON (ed_Extensions errorDetail);
                  response =
                    [(''type'', JString (getTypeForCode (ed_Code errorDetail))),
                     (''title'', JString (ed_Title errorDetail)),
                     (''status'', JInt (HTTPStatusFromCode (st_Code st))),
                     (''detail'', JString (ed_Detail errorDetail)),
                     (''instance'', JString (ed_Instance errorDetail)),
                     (''traceId'', JString (ed_TraceId errorDetail)),
                     (''timestamp'',
                        (case ed_Timestamp errorDetail of None \<Rightarrow> JNull | Some t \<Rightarrow> JTime t))]
                    @ (if length (ed_FieldViolations errorDetail) > 0
                       then [(''errors'',
                              JArray (map violation_json (ed_FieldViolations errorDetail)))]
                       else [])
                    @ (if length (ed_Extensions errorDetail) > 0 \<and> length extensions > 0
                       then [(''extensions'', JObject extensions)]
                       else [])
              in Write (JSONBytes (JObject response)) w1)
         | None \<Rightarrow>
             (let fallbackErr = (NewInternal (st_Message st) traceID None)\<lparr>GRPCCode := st_Code st\<rparr>
              in writeAppErrorResponse now w fallbackErr (URL_Path r)))"

section \<open>The validation engine\<close>

text \<open>
  The task messages of \<^verbatim>\<open>api/proto/todo/v1\<close>. Of the two enumerations the code names
  three and two values; every other value is kept by its number. A message field that
  is nil is \<open>None\<close>.
\<close>

datatype TaskStatus = STATUS_UNSPECIFIED | STATUS_PENDING | STATUS_COMPLETED | STATUS_other nat

datatype Priority = PRIORITY_UNSPECIFIED | PRIORITY_MEDIUM | PRIORITY_other nat

record Task =
  t_Name :: string
  t_Title :: string
  t_Description :: string
  t_Status :: TaskStatus
  t_Priority :: Priority
  t_DueDate :: "Timestamp option"
  t_Tags :: "string list"
  t_CreateTime :: "Timestamp option"
  t_UpdateTime :: "Timestamp option"
  t_CreatedBy :: string

record CreateTaskRequest =
  req_Task :: "Task option"

record BatchCreateTasksRequest =
  Requests :: "CreateTaskRequest list"

record BatchCreateTasksResponse =
  Tasks :: "Task list"

text \<open>
  What \<^verbatim>\<open>protovalidate\<close> reports for a message: no error, a validation error with its
  violations (the field path, nil or a list of elements, the rule id and the message of
  each), or another error, kept by its text. The validator and the constraints declared
  in the proto files are outside the repository's code: the validator is the argument
  \<open>pv\<close> of the functions below.
\<close>

record FieldPathElement =
  FieldName :: string
  FieldNumber :: nat

record Violation =
  v_Field :: "FieldPathElement list option"
  v_RuleId :: string
  v_Message :: string

datatype pv_result = Valid | ValidationError "Violation list" | OtherError string

fun HasPrefix :: "string \<Rightarrow> string \<Rightarrow> bool" where
  "HasPrefix s [] = True"
| "HasPrefix [] (p # ps) = False"
| "HasPrefix (c # cs) (p # ps) = (c = p \<and> HasPrefix cs ps)"

fun Contains :: "string \<Rightarrow> string \<Rightarrow> bool" where
  "Contains [] substr = (substr = [])"
| "Contains (c # cs) substr = (HasPrefix (c # cs) substr \<or> Contains cs substr)"

fun Join :: "string list \<Rightarrow> string \<Rightarrow> string" where
  "Join [] sep = []"
| "Join [p] sep = p"
| "Join (p # ps) sep = p @ sep @ Join ps sep"

fun formatFieldPath_parts :: "FieldPathElement list \<Rightarrow> string list" where
  "formatFieldPath_parts [] = []"
| "formatFieldPath_parts (element # elements) =
     (if FieldName element \<noteq> [] then [FieldName element]
      else if FieldNumber element \<noteq> 0 then [''field_'' @ Sprintf_d (FieldNumber element)]
      else [])
     @ formatFieldPath_parts elements"

definition formatFieldPath :: "FieldPathElement list option \<Rightarrow> string" where
  "formatFieldPath fieldPath =
     (case fieldPath of
        None \<Rightarrow> []
      | Some elements \<Rightarrow> Join (formatFieldPath_parts elements) ''.'')"

definition mapConstraintToCode :: "string \<Rightarrow> string" where
  "mapConstraintToCode ruleId =
     (if Contains ruleId ''required'' then AppErrorCode_String REQUIRED_FIELD
      else if Contains ruleId ''min_len'' then AppErrorCode_String TOO_SHORT
      else if Contains ruleId ''max_len'' then AppErrorCode_String TOO_LONG
      else if Contains ruleId ''pattern'' then AppErrorCode_String INVALID_FORMAT
      else if Contains ruleId ''gt_now'' then AppErrorCode_String MUST_BE_FUTURE
      else if ruleId = [] then AppErrorCode_String VALIDATION_FAILED
      else AppErrorCode_String INVALID_VALUE)"

text \<open>
  \<^verbatim>\<open>isValidTag\<close>: at most 50 bytes, matching \<^verbatim>\<open>^[a-z0-9-]+$\<close>.
\<close>

definition isValidTag :: "string \<Rightarrow> bool" where
  "isValidTag tag =
     (length tag \<le> 50 \<and> tag \<noteq> []
      \<and> list_all (\<lambda>c. c \<in> set ''abcdefghijklmnopqrstuvwxyz0123456789-'') tag)"

definition ValidateRequest :: "('m \<Rightarrow> pv_result) \<Rightarrow> 'm \<Rightarrow> string \<Rightarrow> go_error option" where
  "ValidateRequest pv req traceID =
     (case pv req of
        Valid \<Rightarrow> None
      | ValidationError vs \<Rightarrow>
          Some (AppErr (NewValidationFailed
            (map (\<lambda>violation.
                    \<lparr>fv_Field = formatFieldPath (v_Field violation),
                     fv_Description = v_Message violation,
                     fv_Code = mapConstraintToCode (v_RuleId violation)\<rparr>) vs)
            traceID))
      | OtherError msg \<Rightarrow> Some (AppErr (NewInternal ''Validation failed'' traceID (Some msg))))"

text \<open>
  The two loops of \<^verbatim>\<open>ValidateTask\<close> over the tags, with the index of the tag at the
  head of the list; \<open>tagMap\<close> is the Go map of the tags seen so far.
\<close>

fun tagFormatViolations :: "nat \<Rightarrow> string list \<Rightarrow> FieldViolation list" where
  "tagFormatViolations i [] = []"
| "tagFormatViolations i (tag # tags) =
     (if \<not> isValidTag tag
      then [\<lparr>fv_Field = ''tags['' @ Sprintf_d i @ '']'',
             fv_Description = ''Tag '' @ [CHR 0x27] @ tag @ [CHR 0x27]
               @ '' must be lowercase letters, numbers, and hyphens only'',
             fv_Code = AppErrorCode_String INVALID_TAG_FORMAT\<rparr>]
      else [])
     @ tagFormatViolations (Suc i) tags"

fun duplicateTagViolations :: "(string \<Rightarrow> bool) \<Rightarrow> nat \<Rightarrow> string list \<Rightarrow> FieldViolation list" where
  "duplicateTagViolations tagMap i [] = []"
| "duplicateTagViolations tagMap i (tag # tags) =
     (if tagMap tag
      then [\<lparr>fv_Field = ''tags['' @ Sprintf_d i @ '']'',
             fv_Description = ''Tag '' @ [CHR 0x27] @ tag @ [CHR 0x27] @ '' appears multiple times'',
             fv_Code = AppErrorCode_String DUPLICATE_TAG\<rparr>]
      else [])
     @ duplicateTagViolations (tagMap(tag := True)) (Suc i) tags"

definition ValidateTask_violations :: "(Task \<Rightarrow> pv_result) \<Rightarrow> Task \<Rightarrow> string \<Rightarrow> FieldViolation list" where
  "ValidateTask_violations pv task traceID =
     (case ValidateRequest pv task traceID of
        Some (AppErr appErr) \<Rightarrow> FieldViolations appErr
      | _ \<Rightarrow> [])
     @ (if t_Status task = STATUS_COMPLETED
        then (case (t_DueDate task, t_UpdateTime task) of
                (Some dueDate, Some updateTime) \<Rightarrow>
                  if updateTime > dueDate
                  then [\<lparr>fv_Field = ''due_date'',
                         fv_Description = ''Task was completed after the due date'',
                         fv_Code = AppErrorCode_String OVERDUE_COMPLETION\<rparr>]
                  else []
              | _ \<Rightarrow> [])
        else [])
     @ tagFormatViolations 0 (t_Tags task)
     @ duplicateTagViolations (\<lambda>_. False) 0 (t_Tags task)"

definition ValidateTask :: "(Task \<Rightarrow> pv_result) \<Rightarrow> Task \<Rightarrow> string \<Rightarrow> go_error option" where
  "ValidateTask pv task traceID =
     (let violations = ValidateTask_violations pv task traceID
      in if length violations > 0
         then Some (AppErr (NewValidationFailed violations traceID))
         else None)"

text \<open>
  \<^verbatim>\<open>ValidateBatchCreateTasks\<close>. The first loop validates each request, with the index
  of the request at the head of the list. The second builds \<open>titleMap\<close>, a Go map from
  a title to the indices of the requests that have it: it is the list of its entries,
  each title once. The third ranges over that map. Go leaves the order in which
  \<^verbatim>\<open>range\<close> visits the entries of a map unspecified, and its runtime varies it from one
  loop to the next: \<open>range_order\<close> is the order chosen by the run, a rearrangement of the
  entries.
\<close>

fun validateEach ::
  "(Task \<Rightarrow> pv_result) \<Rightarrow> string \<Rightarrow> nat \<Rightarrow> CreateTaskRequest list \<Rightarrow> FieldViolation list" where
  "validateEach pv traceID i [] = []"
| "validateEach pv traceID i (createReq # rest) =
     (case req_Task createReq of
        None \<Rightarrow>
          [\<lparr>fv_Field = ''requests['' @ Sprintf_d i @ ''].task'',
            fv_Description = ''Task is required'',
            fv_Code = AppErrorCode_String REQUIRED_FIELD\<rparr>]
      | Some task \<Rightarrow>
          (case ValidateTask pv task traceID of
             Some (AppErr appErr) \<Rightarrow>
               map (\<lambda>violation.
                      violation\<lparr>fv_Field :=
                        ''requests['' @ Sprintf_d i @ ''].task.'' @ fv_Field violation\<rparr>)
                   (FieldViolations appErr)
           | _ \<Rightarrow> []))
     @ validateEach pv traceID (Suc i) rest"

fun titleMap_append :: "(string \<times> nat list) list \<Rightarrow> string \<Rightarrow> nat \<Rightarrow> (string \<times> nat list) list" where
  "titleMap_append [] title i = [(title, [i])]"
| "titleMap_append ((k, indices) # m) title i =
     (if k = title then (k, indices @ [i]) # m
      else (k, indices) # titleMap_append m title i)"

fun build_titleMap ::
  "(string \<times> nat list) list \<Rightarrow> nat \<Rightarrow> CreateTaskRequest list \<Rightarrow> (string \<times> nat list) list" where
  "build_titleMap titleMap i [] = titleMap"
| "build_titleMap titleMap i (createReq # rest) =
     build_titleMap
       (case req_Task createReq of
          None \<Rightarrow> titleMap
        | Some task \<Rightarrow>
            if t_Title task \<noteq> [] then titleMap_append titleMap (t_Title task) i
            else titleMap)
       (Suc i) rest"

definition duplicateTitleViolation :: "string \<Rightarrow> nat \<Rightarrow> FieldViolation" where
  "duplicateTitleViolation title idx =
     \<lparr>fv_Field = ''requests['' @ Sprintf_d idx @ ''].task.title'',
      fv_Description = ''Title '' @ [CHR 0x27] @ title @ [CHR 0x27]
        @ '' is used by multiple tasks in the batch'',
      fv_Code = AppErrorCode_String DUPLICATE_TITLE\<rparr>"

fun duplicateTitleViolations :: "(string \<times> nat list) list \<Rightarrow> FieldViolation list" where
  "duplicateTitleViolations [] = []"
| "duplicateTitleViolations ((title, indices) # entries) =
     (if length indices > 1 then map (duplicateTitleViolation title) indices else [])
     @ duplicateTitleViolations entries"

definition ValidateBatch_violations ::
  "(Task \<Rightarrow> pv_result) \<Rightarrow> ((string \<times> nat list) list \<Rightarrow> (string \<times> nat list) list)
   \<Rightarrow> BatchCreateTasksRequest \<Rightarrow> string \<Rightarrow> FieldViolation list" where
  "ValidateBatch_violations pv range_order req traceID =
     (if length (Requests req) = 0
      then [\<lparr>fv_Field = ''requests'',
             fv_Description = ''Batch must contain at least one task'',
             fv_Code = AppErrorCode_String EMPTY_BATCH\<rparr>]
      else [])
     @ (if length (Requests req) > 100
        then [\<lparr>fv_Field = ''requests'',
               fv_Description = ''Batch size '' @ Sprintf_d (length (Requests req))
                 @ '' exceeds maximum of 100'',
               fv_Code = AppErrorCode_String BATCH_TOO_LARGE\<rparr>]
        else [])
     @ validateEach pv traceID 0 (Requests req)
     @ duplicateTitleViolations (range_order (build_titleMap [] 0 (Requests req)))"

definition ValidateBatchCreateTasks ::
  "(Task \<Rightarrow> pv_result) \<Rightarrow> ((string \<times> nat list) list \<Rightarrow> (string \<times> nat list) list)
   \<Rightarrow> BatchCreateTasksRequest \<Rightarrow> string \<Rightarrow> go_error option" where
  "ValidateBatchCreateTasks pv range_order req traceID =
     (let violations = ValidateBatch_violations pv range_order req traceID
      in if length violations > 0
         then Some (AppErr (NewValidationFailed violations traceID))
         else None)"

section \<open>The repository and the service\<close>

text \<open>
  \<^verbatim>\<open>InMemoryRepository\<close>, the repository the server is started with: the tasks by
  identifier and the index from a title to an identifier.
\<close>

datatype RepoError = ErrNotFound | ErrAlreadyExists | ErrConnection

fun RepoError_Error :: "RepoError \<Rightarrow> string" where
  "RepoError_Error ErrNotFound = ''not found''"
| "RepoError_Error ErrAlreadyExists = ''already exists''"
| "RepoError_Error ErrConnection = ''connection error''"

record InMemoryRepository =
  r_tasks :: "string \<rightharpoonup> Task"
  r_index :: "string \<rightharpoonup> string"

fun Split :: "string \<Rightarrow> char \<Rightarrow> string list" where
  "Split [] sep = [[]]"
| "Split (c # cs) sep =
     (if c = sep then [] # Split cs sep
      else (case Split cs sep of
              [] \<Rightarrow> [[c]]
            | part # parts \<Rightarrow> (c # part) # parts))"

definition extractID :: "string \<Rightarrow> string" where
  "extractID name =
     (case Split name (CHR ''/'') of
        [p0, p1] \<Rightarrow> p1
      | _ \<Rightarrow> name)"

definition repo_CreateTask :: "InMemoryRepository \<Rightarrow> Task \<Rightarrow> InMemoryRepository \<times> RepoError option" where
  "repo_CreateTask r task =
     (let ident = extractID (t_Name task)
      in if r_tasks r ident \<noteq> None then (r, Some ErrAlreadyExists)
         else if (case r_index r (t_Title task) of
                    Some existingID \<Rightarrow> existingID \<noteq> ident
                  | None \<Rightarrow> False)
         then (r, Some ErrAlreadyExists)
         else (r\<lparr>r_tasks := (r_tasks r)(ident \<mapsto> task),
                 r_index := (r_index r)(t_Title task \<mapsto> ident)\<rparr>, None))"

definition repo_GetTask :: "InMemoryRepository \<Rightarrow> string \<Rightarrow> RepoError + Task" where
  "repo_GetTask r ident =
     (case r_tasks r ident of None \<Rightarrow> Inl ErrNotFound | Some task \<Rightarrow> Inr task)"

definition repo_GetTaskByTitle :: "InMemoryRepository \<Rightarrow> string \<Rightarrow> RepoError + Task" where
  "repo_GetTaskByTitle r title =
     (case r_index r title of None \<Rightarrow> Inl ErrNotFound | Some ident \<Rightarrow> repo_GetTask r ident)"

definition handleRepositoryError :: "RepoError \<Rightarrow> string \<Rightarrow> go_error" where
  "handleRepositoryError err traceID =
     (if err = ErrConnection
      then AppErr (NewServiceUnavailable
             ''Unable to connect to the database. Please try again later.'' traceID)
      else AppErr (NewInternal
             ''An unexpected error occurred while processing your request'' traceID
             (Some (RepoError_Error err))))"

text \<open>
  What the service reads from outside: the validator, the order a run ranges over a
  map in, the trace id of the request's span, the user of the context, the identifiers
  \<^verbatim>\<open>uuid.New\<close> draws, one after the other, and the times \<^verbatim>\<open>timestamppb.Now\<close> returns,
  one reading of the clock after the other. The state is the repository, the number of
  identifiers drawn and the number of readings of the clock so far. \<^verbatim>\<open>CreateTask\<close> reads
  the clock twice, first for the creation time and then for the update time.
\<close>

record Env =
  env_pv :: "Task \<Rightarrow> pv_result"
  env_range_order :: "(string \<times> nat list) list \<Rightarrow> (string \<times> nat list) list"
  env_traceID :: string
  env_now :: "nat \<Rightarrow> Timestamp"
  env_user :: string
  env_uuid :: "nat \<Rightarrow> string"

record World =
  repo :: InMemoryRepository
  uuids_drawn :: nat
  clock_reads :: nat

definition CreateTask :: "Env \<Rightarrow> World \<Rightarrow> CreateTaskRequest \<Rightarrow> World \<times> (go_error + Task)" where
  "CreateTask env s req =
     (case req_Task req of
        None \<Rightarrow>
          (s, Inl (AppErr (NewRequiredField ''task'' ''Task object is required'' (env_traceID env))))
      | Some reqTask \<Rightarrow>
          (case ValidateTask (env_pv env) reqTask (env_traceID env) of
             Some err \<Rightarrow> (s, Inl err)
           | None \<Rightarrow>
               (case repo_GetTaskByTitle (repo s) (t_Title reqTask) of
                  Inr existing \<Rightarrow>
                    (s, Inl (AppErr (NewConflict ''task''
                       ''A task with this title already exists'' (env_traceID env))))
                | Inl err \<Rightarrow>
                    if err \<noteq> ErrNotFound
                    then (s, Inl (handleRepositoryError err (env_traceID env)))
                    else
                      (let taskID = env_uuid env (uuids_drawn s);
                           s1 = s\<lparr>uuids_drawn := Suc (uuids_drawn s),
                                  clock_reads := Suc (Suc (clock_reads s))\<rparr>;
                           task = \<lparr>t_Name = ''tasks/'' @ taskID,
                                   t_Title = t_Title reqTask,
                                   t_Description = t_Description reqTask,
                                   t_Status =
                                     (if t_Status reqTask = STATUS_UNSPECIFIED then STATUS_PENDING
                                      else t_Status reqTask),
                                   t_Priority =
                                     (if t_Priority reqTask = PRIORITY_UNSPECIFIED then PRIORITY_MEDIUM
                                      else t_Priority reqTask),
                                   t_DueDate = t_DueDate reqTask,
                                   t_Tags = t_Tags reqTask,
                                   t_CreateTime = Some (env_now env (clock_reads s)),
                                   t_UpdateTime = Some (env_now env (Suc (clock_reads s))),
                                   t_CreatedBy = env_user env\<rparr>
                       in case repo_CreateTask (repo s1) task of
                            (r', Some err) \<Rightarrow>
                              (s1, Inl (handleRepositoryError err (env_traceID env)))
                          | (r', None) \<Rightarrow> (s1\<lparr>repo := r'\<rparr>, Inr task)))))"

text \<open>
  \<^verbatim>\<open>BatchCreateTasks\<close>. The loop carries the two slices \<open>created\<close> and \<open>batchErrors\<close>.
  The result is the new state, the error or the response, and the attributes the call
  sets on its tracing span.
\<close>

datatype attribute = attribute_String string string | attribute_Int string nat

fun batchLoop ::
  "Env \<Rightarrow> World \<Rightarrow> nat \<Rightarrow> CreateTaskRequest list \<Rightarrow> Task list \<Rightarrow> string list
   \<Rightarrow> World \<times> Task list \<times> string list" where
  "batchLoop env s i [] created batchErrors = (s, created, batchErrors)"
| "batchLoop env s i (createReq # rest) created batchErrors =
     (case CreateTask env s createReq of
        (s', Inl err) \<Rightarrow>
          batchLoop env s' (Suc i) rest created
            (batchErrors @ [''Task '' @ Sprintf_d i @ '': '' @ error_Error err])
      | (s', Inr task) \<Rightarrow>
          batchLoop env s' (Suc i) rest (created @ [task]) batchErrors)"

definition BatchCreateTasks ::
  "Env \<Rightarrow> World \<Rightarrow> BatchCreateTasksRequest
   \<Rightarrow> World \<times> (go_error + BatchCreateTasksResponse) \<times> attribute list" where
  "BatchCreateTasks env s req =
     (case ValidateBatchCreateTasks (env_pv env) (env_range_order env) req (env_traceID env) of
        Some err \<Rightarrow> (s, Inl err, [attribute_String ''validation.error'' (error_Error err)])
      | None \<Rightarrow>
          (case batchLoop env s 0 (Requests req) [] [] of
             (s', created, batchErrors) \<Rightarrow>
               if length created = 0 \<and> length batchErrors > 0
               then (s', Inl (AppErr (NewInternal ''All batch operations failed''
                                        (env_traceID env) None)), [])
               else (s', Inr \<lparr>Tasks = created\<rparr>,
                     if length batchErrors > 0
                     then [attribute_Int ''batch.total'' (length (Requests req)),
                           attribute_Int ''batch.success'' (length created),
                           attribute_Int ''batch.failed'' (length batchErrors)]
                     else [])))"

section \<open>The HTTP middleware\<close>

text \<open>
  What a handler does with the writer it is given: a sequence of \<^verbatim>\<open>WriteHeader\<close> and
  \<^verbatim>\<open>Write\<close> calls. \<open>sent_status\<close> reads, from the calls the wrapped writer has
  received, the status codes passed to its \<^verbatim>\<open>WriteHeader\<close>.
\<close>

datatype writer_call = Call_WriteHeader int | Call_Write Bytes

fun run_calls :: "writer_call list \<Rightarrow> responseWriter \<Rightarrow> responseWriter" where
  "run_calls [] w = w"
| "run_calls (Call_WriteHeader code # calls) w = run_calls calls (WriteHeader code w)"
| "run_calls (Call_Write b # calls) w = run_calls calls (Write b w)"

fun sent_status :: "rw_call list \<Rightarrow> int list" where
  "sent_status [] = []"
| "sent_status (WriteHeader_call code # calls) = code # sent_status calls"
| "sent_status (Write_call b # calls) = sent_status calls"

text \<open>
  \<^verbatim>\<open>HTTPErrorHandler\<close>. The next handler is what it calls on the writer for a request,
  and whether it panics after these calls instead of returning. The result is the wrapped
  writer when the middleware returns.
\<close>

definition HTTPErrorHandler ::
  "Timestamp \<Rightarrow> string \<Rightarrow> (Request \<Rightarrow> writer_call list \<times> bool)
   \<Rightarrow> http_ResponseWriter \<Rightarrow> Request \<Rightarrow> http_ResponseWriter" where
  "HTTPErrorHandler now uuid next w r =
     (let traceID = (if Header r ''X-Trace-ID'' = [] then uuid else Header r ''X-Trace-ID'');
          wrapped = \<lparr>ResponseWriter = w, wr_request = r, wr_traceID = traceID,
                     statusCode = 0, written = False\<rparr>;
          served = run_calls (fst (next r)) wrapped
      in ResponseWriter (if snd (next r) then handlePanic now served else served))"

section \<open>Example inputs\<close>

text \<open>
  Modelled from the spec: the constraints of the task message, which the proto file of
  the task service declares and \<^verbatim>\<open>protovalidate\<close> checks, are missing from the code at
  hand. The spec and the README give one of them: an empty title is reported for the
  field \<^verbatim>\<open>title\<close> with the code \<^verbatim>\<open>REQUIRED_FIELD\<close> and the message ``Task title is
  required''. This validator checks that constraint only. It is the validator of the
  examples below; no general statement depends on it.
\<close>

definition example_pv :: "Task \<Rightarrow> pv_result" where
  "example_pv task =
     (if t_Title task = []
      then ValidationError
             [\<lparr>v_Field = Some [\<lparr>FieldName = ''title'', FieldNumber = 2\<rparr>],
               v_RuleId = ''required'',
               v_Message = ''Task title is required''\<rparr>]
      else Valid)"

definition example_task :: "string \<Rightarrow> Task" where
  "example_task title =
     \<lparr>t_Name = [], t_Title = title, t_Description = [],
      t_Status = STATUS_UNSPECIFIED, t_Priority = PRIORITY_UNSPECIFIED,
      t_DueDate = None, t_Tags = [], t_CreateTime = None, t_UpdateTime = None,
      t_CreatedBy = []\<rparr>"

definition example_env :: Env where
  "example_env =
     \<lparr>env_pv = example_pv,
      env_range_order = (\<lambda>entries. entries),
      env_traceID = ''trace-1'',
      env_now = (\<lambda>n. 1000 + int n),
      env_user = ''anonymous'',
      env_uuid = (\<lambda>n. ''id-'' @ Sprintf_d n)\<rparr>"

definition empty_world :: World where
  "empty_world =
     \<lparr>repo = \<lparr>r_tasks = Map.empty, r_index = Map.empty\<rparr>, uuids_drawn = 0, clock_reads = 0\<rparr>"

text \<open>
  The batch of the README and of the test client: a valid task, a task with an empty
  title, a valid task, and a request without a task.
\<close>

definition example_batch :: BatchCreateTasksRequest where
  "example_batch =
     \<lparr>Requests =
        [\<lparr>req_Task = Some (example_task ''Valid Task 1'')\<rparr>,
         \<lparr>req_Task = Some (example_task [])\<rparr>,
         \<lparr>req_Task = Some (example_task ''Valid Task 2'')\<rparr>,
         \<lparr>req_Task = None\<rparr>]\<rparr>"

text \<open>
  A request that carries the header \<^verbatim>\<open>X-Trace-ID: abc\<close>, a writer nothing has been
  written to, and the detail of a not-found error whose trace id the RPC layer generated.
\<close>

definition example_request :: Request where
  "example_request =
     \<lparr>Header = (\<lambda>name. if name = ''X-Trace-ID'' then ''abc'' else []),
      URL_Path = ''/v1/tasks/zz''\<rparr>"

definition example_writer :: responseWriter where
  "example_writer =
     \<lparr>ResponseWriter = \<lparr>rw_Header = [], rw_calls = []\<rparr>,
      wr_request = example_request, wr_traceID = ''abc'', statusCode = 0, written = False\<rparr>"

definition example_not_found_detail :: ErrorDetail where
  "example_not_found_detail =
     \<lparr>ed_Code = ''RESOURCE_NOT_FOUND'',
      ed_Title = ''Resource Not Found'',
      ed_Detail = ''Task with ID '' @ [CHR 0x27] @ ''zz'' @ [CHR 0x27] @ '' was not found.'',
      ed_FieldViolations = [],
      ed_TraceId = ''generated-by-rpc'',
      ed_Timestamp = Some 1000,
      ed_Instance = [],
      ed_Extensions = []\<rparr>"

text \<open>
  A batch in which two titles are used twice each, and a batch of two tasks without a
  title.
\<close>

definition example_duplicates :: BatchCreateTasksRequest where
  "example_duplicates =
     \<lparr>Requests =
        [\<lparr>req_Task = Some (example_task ''a'')\<rparr>,
         \<lparr>req_Task = Some (example_task ''b'')\<rparr>,
         \<lparr>req_Task = Some (example_task ''a'')\<rparr>,
         \<lparr>req_Task = Some (example_task ''b'')\<rparr>]\<rparr>"

definition example_untitled :: BatchCreateTasksRequest where
  "example_untitled =
     \<lparr>Requests =
        [\<lparr>req_Task = Some (example_task [])\<rparr>,
         \<lparr>req_Task = Some (example_task [])\<rparr>]\<rparr>"

section \<open>Duplicate titles, as a specification\<close>

text \<open>
  The violations of an error, when the result of a validation is an \<^verbatim>\<open>AppError\<close>.
\<close>

definition violations_of :: "go_error option \<Rightarrow> FieldViolation list" where
  "violations_of result =
     (case result of Some (AppErr appErr) \<Rightarrow> FieldViolations appErr | _ \<Rightarrow> [])"

text \<open>
  The statement the duplicate-title loop is compared with. A request has a title when
  it has a task whose title is not empty. \<open>occurrences batch title\<close> counts the requests
  of the batch with that title, and \<open>expected_duplicates\<close> lists, in the order of the
  batch, one violation for each request whose title occurs at least twice.
\<close>

definition title_of :: "CreateTaskRequest \<Rightarrow> string option" where
  "title_of createReq =
     (case req_Task createReq of
        None \<Rightarrow> None
      | Some task \<Rightarrow> if t_Title task \<noteq> [] then Some (t_Title task) else None)"

definition occurrences :: "CreateTaskRequest list \<Rightarrow> string \<Rightarrow> nat" where
  "occurrences batch title =
     length (filter (\<lambda>createReq. title_of createReq = Some title) batch)"

fun expected_duplicates ::
  "CreateTaskRequest list \<Rightarrow> nat \<Rightarrow> CreateTaskRequest list \<Rightarrow> FieldViolation list" where
  "expected_duplicates batch i [] = []"
| "expected_duplicates batch i (createReq # rest) =
     (case title_of createReq of
        None \<Rightarrow> []
      | Some title \<Rightarrow>
          if occurrences batch title \<ge> 2 then [duplicateTitleViolation title i] else [])
     @ expected_duplicates batch (Suc i) rest"

text \<open>
  For the proofs: the pairs of a title and an index of the requests that have a title,
  the same pairs read from the entries of a title map, and the violations the loop emits
  for one entry.
\<close>

fun title_pairs :: "nat \<Rightarrow> CreateTaskRequest list \<Rightarrow> (string \<times> nat) list" where
  "title_pairs i [] = []"
| "title_pairs i (createReq # rest) =
     (case title_of createReq of None \<Rightarrow> [] | Some title \<Rightarrow> [(title, i)])
     @ title_pairs (Suc i) rest"

definition entries_flat :: "(string \<times> nat list) list \<Rightarrow> (string \<times> nat) list" where
  "entries_flat m = concat (map (\<lambda>(k, indices). map (Pair k) indices) m)"

definition entry_violations :: "string \<times> nat list \<Rightarrow> FieldViolation list" where
  "entry_violations entry =
     (if length (snd entry) > 1 then map (duplicateTitleViolation (fst entry)) (snd entry)
      else [])"

section \<open>The pairing of application code and transport code\<close>

text \<open>
  Claim C1. Each of the seven constructors fixes the pair of application code and
  transport code of the error it builds: validation failed with invalid argument (also
  for the required-field constructor, which builds a validation error), resource not
  found with not found, resource conflict with already exists, permission denied with
  permission denied, service unavailable with unavailable, internal error with internal.
  \<open>ToGRPCStatus\<close> returns a status, and its code is that transport code.
\<close>

theorem C1_constructor_pairs:
  "AppCode (NewValidationFailed violations traceID) = VALIDATION_FAILED
   \<and> GRPCCode (NewValidationFailed violations traceID) = InvalidArgument
   \<and> map_option st_Code (ToGRPCStatus now (NewValidationFailed violations traceID))
       = Some InvalidArgument
   \<and> AppCode (NewRequiredField field message traceID) = VALIDATION_FAILED
   \<and> GRPCCode (NewRequiredField field message traceID) = InvalidArgument
   \<and> map_option st_Code (ToGRPCStatus now (NewRequiredField field message traceID))
       = Some InvalidArgument
   \<and> AppCode (NewNotFound resource ident traceID) = RESOURCE_NOT_FOUND
   \<and> GRPCCode (NewNotFound resource ident traceID) = NotFound
   \<and> map_option st_Code (ToGRPCStatus now (NewNotFound resource ident traceID))
       = Some NotFound
   \<and> AppCode (NewConflict resource reason traceID) = RESOURCE_CONFLICT
   \<and> GRPCCode (NewConflict resource reason traceID) = AlreadyExists
   \<and> map_option st_Code (ToGRPCStatus now (NewConflict resource reason traceID))
       = Some AlreadyExists
   \<and> AppCode (NewPermissionDenied resource action traceID) = PERMISSION_DENIED
   \<and> GRPCCode (NewPermissionDenied resource action traceID) = PermissionDenied
   \<and> map_option st_Code (ToGRPCStatus now (NewPermissionDenied resource action traceID))
       = Some PermissionDenied
   \<and> AppCode (NewServiceUnavailable message traceID) = SERVICE_UNAVAILABLE
   \<and> GRPCCode (NewServiceUnavailable message traceID) = Unavailable
   \<and> map_option st_Code (ToGRPCStatus now (NewServiceUnavailable message traceID))
       = Some Unavailable
   \<and> AppCode (NewInternal message traceID causedBy) = INTERNAL_ERROR
   \<and> GRPCCode (NewInternal message traceID causedBy) = Internal
   \<and> map_option st_Code (ToGRPCStatus now (NewInternal message traceID causedBy))
       = Some Internal"
  by (simp add: ToGRPCStatus_def WithDetails_def status_New_def Let_def
      NewValidationFailed_def NewRequiredField_def NewNotFound_def NewConflict_def
      NewPermissionDenied_def NewServiceUnavailable_def NewInternal_def)


section \<open>Structured detail on the wire status\<close>

text \<open>
  The details of the status of any error whose transport code is not \<^verbatim>\<open>OK\<close>; the
  constructors pair the transport code invalid argument with exactly the application
  codes of the validation group; and the errors the validation package returns are
  built from at least one violation.
\<close>

lemma ToGRPCStatus_details:
  "GRPCCode e \<noteq> OK \<Longrightarrow>
     map_option st_Details (ToGRPCStatus now e)
       = Some ((if GRPCCode e = InvalidArgument \<and> FieldViolations e \<noteq> []
                then [BadRequestD (map (\<lambda>fv. (fv_Field fv, fv_Description fv)) (FieldViolations e))]
                else [])
               @ [ErrorDetailD
                    \<lparr>ed_Code = AppErrorCode_String (AppCode e), ed_Title = Title e,
                     ed_Detail = Detail e, ed_FieldViolations = FieldViolations e,
                     ed_TraceId = TraceID e, ed_Timestamp = Some now,
                     ed_Instance = Instance e, ed_Extensions = Extensions e\<rparr>])"
  by (simp add: ToGRPCStatus_def WithDetails_def status_New_def Let_def)

lemma constructed_codes:
  "constructed e \<Longrightarrow>
     GRPCCode e \<noteq> OK \<and> (GRPCCode e = InvalidArgument) = is_validation_code (AppCode e)"
  by (induction rule: constructed.induct)
     (simp_all add: NewValidationFailed_def NewRequiredField_def NewNotFound_def NewConflict_def
        NewPermissionDenied_def NewServiceUnavailable_def NewInternal_def)

lemma ValidateTask_builds_violations:
  "ValidateTask pv task traceID = Some err \<Longrightarrow>
     \<exists>appErr. err = AppErr appErr \<and> constructed appErr \<and> is_validation_code (AppCode appErr)
       \<and> FieldViolations appErr \<noteq> []"
  by (auto simp: ValidateTask_def Let_def split: if_splits
      intro!: constructed.by_NewValidationFailed)
     (simp_all add: NewValidationFailed_def)

lemma ValidateBatchCreateTasks_builds_violations:
  "ValidateBatchCreateTasks pv range_order req traceID = Some err \<Longrightarrow>
     \<exists>appErr. err = AppErr appErr \<and> constructed appErr \<and> is_validation_code (AppCode appErr)
       \<and> FieldViolations appErr \<noteq> []"
  by (auto simp: ValidateBatchCreateTasks_def Let_def split: if_splits
      intro!: constructed.by_NewValidationFailed)
     (simp_all add: NewValidationFailed_def)

text \<open>
  Claim C5. For every error the constructors build: when its application code is in
  the validation group and it has field violations, the status carries the detail
  twice, first as the generic bad-request block, which lists the field and the
  description of each violation in their order, and then as the application's error
  detail with the same violations; when its application code is not in the validation
  group, the status carries the error detail alone.
\<close>

theorem C5_detail_attached_twice:
  assumes "constructed e"
  shows "(is_validation_code (AppCode e) \<and> FieldViolations e \<noteq> [] \<longrightarrow>
            map_option st_Details (ToGRPCStatus now e)
              = Some [BadRequestD (map (\<lambda>fv. (fv_Field fv, fv_Description fv)) (FieldViolations e)),
                      ErrorDetailD
                        \<lparr>ed_Code = AppErrorCode_String (AppCode e), ed_Title = Title e,
                         ed_Detail = Detail e, ed_FieldViolations = FieldViolations e,
                         ed_TraceId = TraceID e, ed_Timestamp = Some now,
                         ed_Instance = Instance e, ed_Extensions = Extensions e\<rparr>])
         \<and> (\<not> is_validation_code (AppCode e) \<longrightarrow>
            map_option st_Details (ToGRPCStatus now e)
              = Some [ErrorDetailD
                        \<lparr>ed_Code = AppErrorCode_String (AppCode e), ed_Title = Title e,
                         ed_Detail = Detail e, ed_FieldViolations = FieldViolations e,
                         ed_TraceId = TraceID e, ed_Timestamp = Some now,
                         ed_Instance = Instance e, ed_Extensions = Extensions e\<rparr>])"
  using constructed_codes [OF assms] ToGRPCStatus_details [of e now]
  by auto

theorem C5_witness:
  "constructed (NewRequiredField ''title'' ''Task title is required'' ''t'')
   \<and> is_validation_code (AppCode (NewRequiredField ''title'' ''Task title is required'' ''t''))
   \<and> FieldViolations (NewRequiredField ''title'' ''Task title is required'' ''t'') \<noteq> []
   \<and> map_option st_Details
        (ToGRPCStatus 0 (NewRequiredField ''title'' ''Task title is required'' ''t''))
       = Some [BadRequestD [(''title'', ''Task title is required'')],
               ErrorDetailD
                 \<lparr>ed_Code = ''VALIDATION_FAILED'', ed_Title = ''Validation Failed'',
                  ed_Detail = ''The request contains validation errors'',
                  ed_FieldViolations =
                    [\<lparr>fv_Field = ''title'', fv_Description = ''Task title is required'',
                      fv_Code = ''REQUIRED_FIELD''\<rparr>],
                  ed_TraceId = ''t'', ed_Timestamp = Some 0,
                  ed_Instance = [], ed_Extensions = []\<rparr>]
   \<and> constructed (NewConflict ''task'' ''exists'' ''t'')
   \<and> \<not> is_validation_code (AppCode (NewConflict ''task'' ''exists'' ''t''))
   \<and> map_option st_Details (ToGRPCStatus 0 (NewConflict ''task'' ''exists'' ''t''))
       = Some [ErrorDetailD
                 \<lparr>ed_Code = ''RESOURCE_CONFLICT'', ed_Title = ''Resource Conflict'',
                  ed_Detail = ''Conflict creating task: exists'',
                  ed_FieldViolations = [],
                  ed_TraceId = ''t'', ed_Timestamp = Some 0,
                  ed_Instance = [], ed_Extensions = []\<rparr>]"
proof -
  let ?v = "NewRequiredField ''title'' ''Task title is required'' ''t''"
  let ?c = "NewConflict ''task'' ''exists'' ''t''"
  have cv: "constructed ?v" by (rule constructed.by_NewRequiredField)
  have cc: "constructed ?c" by (rule constructed.by_NewConflict)
  have a: "is_validation_code (AppCode ?v)" "FieldViolations ?v \<noteq> []"
    by (simp_all add: NewRequiredField_def)
  have b: "\<not> is_validation_code (AppCode ?c)"
    by (simp add: NewConflict_def)
  have v: "FieldViolations ?v
       = [\<lparr>fv_Field = ''title'', fv_Description = ''Task title is required'',
           fv_Code = ''REQUIRED_FIELD''\<rparr>]"
    "AppCode ?v = VALIDATION_FAILED" "Title ?v = ''Validation Failed''"
    "Detail ?v = ''The request contains validation errors''"
    "TraceID ?v = ''t''" "Instance ?v = []" "Extensions ?v = []"
    by (simp_all add: NewRequiredField_def)
  have c: "FieldViolations ?c = []"
    "AppCode ?c = RESOURCE_CONFLICT" "Title ?c = ''Resource Conflict''"
    "Detail ?c = ''Conflict creating task: exists''"
    "TraceID ?c = ''t''" "Instance ?c = []" "Extensions ?c = []"
    by (simp_all add: NewConflict_def)
  have d1: "map_option st_Details (ToGRPCStatus 0 ?v)
       = Some [BadRequestD [(''title'', ''Task title is required'')],
               ErrorDetailD
                 \<lparr>ed_Code = ''VALIDATION_FAILED'', ed_Title = ''Validation Failed'',
                  ed_Detail = ''The request contains validation errors'',
                  ed_FieldViolations =
                    [\<lparr>fv_Field = ''title'', fv_Description = ''Task title is required'',
                      fv_Code = ''REQUIRED_FIELD''\<rparr>],
                  ed_TraceId = ''t'', ed_Timestamp = Some 0,
                  ed_Instance = [], ed_Extensions = []\<rparr>]"
    using C5_detail_attached_twice [OF cv, of 0] a by (simp add: v)
  have d2: "map_option st_Details (ToGRPCStatus 0 ?c)
       = Some [ErrorDetailD
                 \<lparr>ed_Code = ''RESOURCE_CONFLICT'', ed_Title = ''Resource Conflict'',
                  ed_Detail = ''Conflict creating task: exists'',
                  ed_FieldViolations = [],
                  ed_TraceId = ''t'', ed_Timestamp = Some 0,
                  ed_Instance = [], ed_Extensions = []\<rparr>]"
    using C5_detail_attached_twice [OF cc, of 0] b by (simp add: c)
  from cv cc a b d1 d2 show ?thesis by blast
qed

section \<open>The internal cause stays on the server\<close>

text \<open>
  Claim C6. Two errors that differ only in \<^verbatim>\<open>CausedBy\<close> give the same wire status,
  the same HTTP response, the same error text and the same result of the interceptor.
  The cause appears in the line the interceptor writes to the server log.
\<close>

theorem C6_cause_not_serialized:
  "ToGRPCStatus now (e\<lparr>CausedBy := cause\<rparr>) = ToGRPCStatus now e
   \<and> writeAppErrorResponse now w (e\<lparr>CausedBy := cause\<rparr>) inst = writeAppErrorResponse now w e inst
   \<and> AppError_Error (e\<lparr>CausedBy := cause\<rparr>) = AppError_Error e
   \<and> fst (UnaryErrorInterceptor now req (\<lambda>_. (resp, Some (AppErr (e\<lparr>CausedBy := cause\<rparr>)))))
       = fst (UnaryErrorInterceptor now req (\<lambda>_. (resp, Some (AppErr e))))
   \<and> snd (UnaryErrorInterceptor now req (\<lambda>_. (resp, Some (AppErr (e\<lparr>CausedBy := Some c\<rparr>)))))
       = [''ERROR: '' @ Title e @ '', Original cause: '' @ c]"
  by (simp add: UnaryErrorInterceptor_def ToGRPCStatus_def writeAppErrorResponse_def
      AppError_Error_def Let_def)

section \<open>The RPC error interceptor\<close>

text \<open>
  Claim C8. Whatever the handler returns: without an error the response passes through
  and nothing is logged; an \<^verbatim>\<open>AppError\<close> is converted by \<open>ToGRPCStatus\<close>, and its cause
  is logged when it has one; an error that already carries a status is returned as it
  is; any other error is logged and becomes the status of an internal error whose trace
  id is empty.
\<close>

theorem C8_interceptor_cases:
  "UnaryErrorInterceptor now req (\<lambda>_. (resp, None)) = ((resp, None), [])
   \<and> UnaryErrorInterceptor now req (\<lambda>_. (resp, Some (AppErr appErr)))
       = ((None, Status_Err (ToGRPCStatus now appErr)),
          (case CausedBy appErr of
             None \<Rightarrow> []
           | Some cause \<Rightarrow> [''ERROR: '' @ Title appErr @ '', Original cause: '' @ cause]))
   \<and> UnaryErrorInterceptor now req (\<lambda>_. (resp, Some (StatusErr st)))
       = ((None, Some (StatusErr st)), [])
   \<and> UnaryErrorInterceptor now req (\<lambda>_. (resp, Some (PlainErr msg)))
       = ((None,
           Some (StatusErr
             \<lparr>st_Code = Internal,
              st_Message = ''Internal Server Error'',
              st_Details =
                [ErrorDetailD
                   \<lparr>ed_Code = ''INTERNAL_ERROR'',
                    ed_Title = ''Internal Server Error'',
                    ed_Detail = ''An unexpected error occurred'',
                    ed_FieldViolations = [],
                    ed_TraceId = [],
                    ed_Timestamp = Some now,
                    ed_Instance = [],
                    ed_Extensions = []\<rparr>]\<rparr>)),
          [''UNEXPECTED ERROR: '' @ msg])
   \<and> snd (fst (UnaryErrorInterceptor now req (\<lambda>_. (resp, Some (PlainErr msg)))))
       = Status_Err (ToGRPCStatus now (NewInternal ''An unexpected error occurred'' [] (Some msg)))"
  by (simp add: UnaryErrorInterceptor_def ToGRPCStatus_def WithDetails_def status_New_def
      NewInternal_def Let_def)

section \<open>The proxied HTTP path\<close>

lemma firstErrorDetail_mem:
  "ErrorDetailD ed \<in> set ds \<Longrightarrow> \<exists>ed'. firstErrorDetail ds = Some ed'"
  by (induction ds rule: firstErrorDetail.induct) auto

lemma firstErrorDetail_none:
  "(\<And>ed. ErrorDetailD ed \<notin> set ds) \<Longrightarrow> firstErrorDetail ds = None"
  by (induction ds rule: firstErrorDetail.induct) auto

lemma sent_status_append [simp]:
  "sent_status (xs @ ys) = sent_status xs @ sent_status ys"
  by (induction xs rule: sent_status.induct) auto

lemma last_calls_Write:
  "last (rw_calls (ResponseWriter (Write b w))) = Write_call b"
  by (simp add: Write_def Let_def)

text \<open>
  Claim C4. When the request carries a non-empty \<^verbatim>\<open>X-Trace-ID\<close> header (the code reads
  the header with \<^verbatim>\<open>Header.Get\<close>, which gives the empty string for a header that is
  absent) and the status of the error carries an \<^verbatim>\<open>ErrorDetail\<close>, the body written last
  is a JSON object whose \<^verbatim>\<open>traceId\<close> is the value of the header, whatever trace id the
  detail held, and whose \<^verbatim>\<open>instance\<close> is the path of the request's URL.
\<close>

theorem C4_trace_and_instance_restamped:
  assumes "Header r ''X-Trace-ID'' \<noteq> []"
    and "ErrorDetailD ed \<in> set (st_Details (fst (FromError err)))"
  shows "\<exists>body.
           last (rw_calls (ResponseWriter (CustomHTTPError anyJSON now uuid span w r err)))
             = Write_call (JSONBytes (JObject body))
           \<and> map_of body ''traceId'' = Some (JString (Header r ''X-Trace-ID''))
           \<and> map_of body ''instance'' = Some (JString (URL_Path r))"
proof -
  from assms(2) obtain ed' where
    first: "firstErrorDetail (st_Details (fst (FromError err))) = Some ed'"
    using firstErrorDetail_mem by blast
  show ?thesis
    using assms(1) first
    by (simp add: CustomHTTPError_def Let_def last_calls_Write)
qed

theorem C4_witness:
  "Header example_request ''X-Trace-ID'' \<noteq> []
   \<and> ErrorDetailD example_not_found_detail
       \<in> set (st_Details (fst (FromError
            (StatusErr \<lparr>st_Code = NotFound, st_Message = ''Resource Not Found'',
                         st_Details = [ErrorDetailD example_not_found_detail]\<rparr>))))
   \<and> (\<exists>body.
         last (rw_calls (ResponseWriter
           (CustomHTTPError (\<lambda>_. None) 2000 ''fresh-uuid'' None example_writer example_request
              (StatusErr \<lparr>st_Code = NotFound, st_Message = ''Resource Not Found'',
                           st_Details = [ErrorDetailD example_not_found_detail]\<rparr>))))
           = Write_call (JSONBytes (JObject body))
         \<and> map_of body ''traceId'' = Some (JString ''abc'')
         \<and> map_of body ''instance'' = Some (JString ''/v1/tasks/zz''))"
proof -
  let ?err = "StatusErr \<lparr>st_Code = NotFound, st_Message = ''Resource Not Found'',
                         st_Details = [ErrorDetailD example_not_found_detail]\<rparr>"
  have h1: "Header example_request ''X-Trace-ID'' \<noteq> []"
    by (simp add: example_request_def)
  have h2: "ErrorDetailD example_not_found_detail \<in> set (st_Details (fst (FromError ?err)))"
    by simp
  have v: "Header example_request ''X-Trace-ID'' = ''abc''"
    "URL_Path example_request = ''/v1/tasks/zz''"
    by (simp_all add: example_request_def)
  from C4_trace_and_instance_restamped [OF h1 h2, of "\<lambda>_. None" 2000 "''fresh-uuid''" None example_writer]
  show ?thesis using h1 h2 unfolding v by blast
qed

text \<open>
  Claim C7. When the status of the error carries no \<^verbatim>\<open>ErrorDetail\<close>, the translator
  still answers: the content type is \<^verbatim>\<open>application/problem+json\<close>, the body is the JSON
  object of an internal error whose detail is the message of the status, with the trace
  id and the path of the request, and the status code derived from the code of the
  status is sent unless a status code had been sent before.
\<close>

theorem C7_fallback:
  assumes "\<forall>ed. ErrorDetailD ed \<notin> set (st_Details (fst (FromError err)))"
  shows "map_of (rw_Header (ResponseWriter (CustomHTTPError anyJSON now uuid span w r err)))
           ''Content-Type'' = Some ''application/problem+json''
         \<and> last (rw_calls (ResponseWriter (CustomHTTPError anyJSON now uuid span w r err)))
             = Write_call (JSONBytes (JObject
                 ([(''type'', JString ''https://api.example.com/errors/internal-error''),
                   (''title'', JString ''Internal Server Error''),
                   (''status'', JInt (HTTPStatusFromCode (st_Code (fst (FromError err))))),
                   (''detail'', JString (st_Message (fst (FromError err)))),
                   (''traceId'', JString
                      (if Header r ''X-Trace-ID'' = []
                       then (case span of Some t \<Rightarrow> t | None \<Rightarrow> uuid)
                       else Header r ''X-Trace-ID'')),
                   (''timestamp'', JTime now)]
                  @ (if URL_Path r \<noteq> [] then [(''instance'', JString (URL_Path r))] else []))))
         \<and> sent_status (rw_calls (ResponseWriter (CustomHTTPError anyJSON now uuid span w r err)))
             = sent_status (rw_calls (ResponseWriter w))
               @ (if written w then [] else [HTTPStatusFromCode (st_Code (fst (FromError err)))])"
proof -
  have none: "firstErrorDetail (st_Details (fst (FromError err))) = None"
    using assms firstErrorDetail_none by blast
  show ?thesis
    using none
    by (simp add: CustomHTTPError_def Let_def writeAppErrorResponse_def last_calls_Write NewInternal_def getTypeForCode_def Write_def WriteHeader_def Header_Set_def)
qed

theorem C7_witness:
  "(\<forall>ed. ErrorDetailD ed \<notin> set (st_Details (fst (FromError (PlainErr ''connection reset'')))))
   \<and> map_of (rw_Header (ResponseWriter
        (CustomHTTPError (\<lambda>_. None) 2000 ''fresh-uuid'' None example_writer example_request
           (PlainErr ''connection reset''))))
        ''Content-Type'' = Some ''application/problem+json''
   \<and> last (rw_calls (ResponseWriter
        (CustomHTTPError (\<lambda>_. None) 2000 ''fresh-uuid'' None example_writer example_request
           (PlainErr ''connection reset''))))
       = Write_call (JSONBytes (JObject
           [(''type'', JString ''https://api.example.com/errors/internal-error''),
            (''title'', JString ''Internal Server Error''),
            (''status'', JInt 500),
            (''detail'', JString ''connection reset''),
            (''traceId'', JString ''abc''),
            (''timestamp'', JTime 2000),
            (''instance'', JString ''/v1/tasks/zz'')]))
   \<and> sent_status (rw_calls (ResponseWriter
        (CustomHTTPError (\<lambda>_. None) 2000 ''fresh-uuid'' None example_writer example_request
           (PlainErr ''connection reset''))))
       = [500]"
proof -
  have h: "\<forall>ed. ErrorDetailD ed \<notin> set (st_Details (fst (FromError (PlainErr ''connection reset''))))"
    by (simp add: status_New_def)
  have v: "Header example_request ''X-Trace-ID'' = ''abc''"
    "URL_Path example_request = ''/v1/tasks/zz''"
    "st_Code (fst (FromError (PlainErr ''connection reset''))) = Unknown"
    "st_Message (fst (FromError (PlainErr ''connection reset''))) = ''connection reset''"
    "written example_writer = False"
    "rw_calls (ResponseWriter example_writer) = []"
    by (simp_all add: example_request_def status_New_def example_writer_def)
  from C7_fallback [OF h, of "\<lambda>_. None" 2000 "''fresh-uuid''" None example_writer example_request]
  show ?thesis using h unfolding v by simp
qed

section \<open>The response writer of the middleware\<close>

lemma run_calls_written:
  "written w \<Longrightarrow>
     written (run_calls calls w)
     \<and> statusCode (run_calls calls w) = statusCode w
     \<and> sent_status (rw_calls (ResponseWriter (run_calls calls w)))
         = sent_status (rw_calls (ResponseWriter w))"
  by (induction calls w rule: run_calls.induct) (auto simp: WriteHeader_def Write_def Let_def)

lemma handlePanic_sent:
  "sent_status (rw_calls (ResponseWriter (handlePanic now w)))
     = sent_status (rw_calls (ResponseWriter w)) @ (if written w then [] else [500])"
  by (simp add: handlePanic_def writeErrorResponse_def writeAppErrorResponse_def Let_def
      Write_def WriteHeader_def Header_Set_def NewInternal_def)

text \<open>
  Claim C10. Through the middleware, the wrapped writer receives at most one status
  code more, whatever the handler calls: the code of the handler's first
  \<^verbatim>\<open>WriteHeader\<close>, or 200 when its first call is a \<^verbatim>\<open>Write\<close>; a handler that panics before
  any call gets 500. After a first \<^verbatim>\<open>WriteHeader\<close> or \<^verbatim>\<open>Write\<close> and any further calls, one
  more \<^verbatim>\<open>WriteHeader\<close> changes nothing at all, and the recorded status code is still the
  one the first call set. The answer to a panic after a first \<^verbatim>\<open>WriteHeader\<close> changes
  neither the recorded status code nor the status codes sent.
\<close>

theorem C10_header_forwarded_once:
  "sent_status (rw_calls (HTTPErrorHandler now uuid next w r))
     = sent_status (rw_calls w)
       @ (case fst (next r) of
            [] \<Rightarrow> (if snd (next r) then [500] else [])
          | Call_WriteHeader code # calls \<Rightarrow> [code]
          | Call_Write b # calls \<Rightarrow> [200])
   \<and> WriteHeader code2 (run_calls calls (WriteHeader code1 wr))
       = run_calls calls (WriteHeader code1 wr)
   \<and> WriteHeader code2 (run_calls calls (Write b wr)) = run_calls calls (Write b wr)
   \<and> statusCode (run_calls calls (WriteHeader code1 wr)) = statusCode (WriteHeader code1 wr)
   \<and> statusCode (run_calls calls (Write b wr)) = statusCode (Write b wr)
   \<and> statusCode (handlePanic now (run_calls calls (WriteHeader code1 wr)))
       = statusCode (WriteHeader code1 wr)
   \<and> sent_status (rw_calls (ResponseWriter (handlePanic now (run_calls calls (WriteHeader code1 wr)))))
       = sent_status (rw_calls (ResponseWriter (WriteHeader code1 wr)))"
proof -
  have w1: "written (WriteHeader code1 wr)" by (simp add: WriteHeader_def)
  have w2: "written (Write b wr)" by (simp add: Write_def WriteHeader_def Let_def)
  have a: "sent_status (rw_calls (HTTPErrorHandler now uuid next w r))
     = sent_status (rw_calls w)
       @ (case fst (next r) of
            [] \<Rightarrow> (if snd (next r) then [500] else [])
          | Call_WriteHeader code # calls \<Rightarrow> [code]
          | Call_Write b # calls \<Rightarrow> [200])"
  proof (cases "fst (next r)")
    case Nil
    then show ?thesis
      by (simp add: HTTPErrorHandler_def Let_def handlePanic_sent)
  next
    case (Cons c cs)
    let ?w0 = "\<lparr>ResponseWriter = w, wr_request = r,
                wr_traceID = (if Header r ''X-Trace-ID'' = [] then uuid else Header r ''X-Trace-ID''),
                statusCode = 0, written = False\<rparr>"
    show ?thesis
    proof (cases c)
      case (Call_WriteHeader code)
      have "written (WriteHeader code ?w0)" by (simp add: WriteHeader_def)
      from run_calls_written [OF this, of cs] show ?thesis
        using Cons Call_WriteHeader
        by (simp add: HTTPErrorHandler_def Let_def handlePanic_sent WriteHeader_def)
    next
      case (Call_Write b')
      have "written (Write b' ?w0)" by (simp add: Write_def WriteHeader_def Let_def)
      from run_calls_written [OF this, of cs] show ?thesis
        using Cons Call_Write
        by (simp add: HTTPErrorHandler_def Let_def handlePanic_sent WriteHeader_def Write_def)
    qed
  qed
  note r1 = run_calls_written [OF w1, of calls]
  note r2 = run_calls_written [OF w2, of calls]
  have b: "WriteHeader code2 (run_calls calls (WriteHeader code1 wr))
       = run_calls calls (WriteHeader code1 wr)"
    using r1 by (simp add: WriteHeader_def)
  have c: "WriteHeader code2 (run_calls calls (Write b wr)) = run_calls calls (Write b wr)"
    using r2 by (simp add: WriteHeader_def)
  have d: "statusCode (run_calls calls (WriteHeader code1 wr)) = statusCode (WriteHeader code1 wr)"
    "statusCode (run_calls calls (Write b wr)) = statusCode (Write b wr)"
    using r1 r2 by simp_all
  have e: "statusCode (handlePanic now (run_calls calls (WriteHeader code1 wr)))
       = statusCode (WriteHeader code1 wr)"
    using r1 by (simp add: handlePanic_def writeErrorResponse_def writeAppErrorResponse_def Let_def
      Write_def WriteHeader_def Header_Set_def)
  have f: "sent_status (rw_calls (ResponseWriter (handlePanic now (run_calls calls (WriteHeader code1 wr)))))
       = sent_status (rw_calls (ResponseWriter (WriteHeader code1 wr)))"
    using r1 by (simp add: handlePanic_sent)
  from a b c d e f show ?thesis by blast
qed

section \<open>Duplicate titles in a batch\<close>

text \<open>
  No violation of the per-request validation has the code of a duplicate title, and
  every violation of the duplicate-title loop has it.
\<close>

lemma mapConstraintToCode_not_dup: "mapConstraintToCode r \<noteq> ''DUPLICATE_TITLE''"
  by (simp add: mapConstraintToCode_def)

lemma tagFormat_code:
  "filter (\<lambda>v. fv_Code v = ''DUPLICATE_TITLE'') (tagFormatViolations i tags) = []"
  by (induction i tags rule: tagFormatViolations.induct) auto

lemma duplicateTag_code:
  "filter (\<lambda>v. fv_Code v = ''DUPLICATE_TITLE'') (duplicateTagViolations tagMap i tags) = []"
  by (induction tags arbitrary: tagMap i) simp_all

lemma ValidateRequest_code:
  "ValidateRequest pv task traceID = Some (AppErr appErr) \<Longrightarrow>
     filter (\<lambda>v. fv_Code v = ''DUPLICATE_TITLE'') (FieldViolations appErr) = []"
  apply (cases "pv task")
    apply (simp add: ValidateRequest_def)
   apply (simp add: ValidateRequest_def NewValidationFailed_def)
   apply (auto simp: filter_empty_conv mapConstraintToCode_not_dup)[1]
  apply (auto simp add: ValidateRequest_def NewInternal_def)
  done

lemma ValidateTask_violations_code:
  "filter (\<lambda>v. fv_Code v = ''DUPLICATE_TITLE'') (ValidateTask_violations pv task traceID) = []"
proof -
  have a: "filter (\<lambda>v. fv_Code v = ''DUPLICATE_TITLE'')
          (case ValidateRequest pv task traceID of
             Some (AppErr appErr) \<Rightarrow> FieldViolations appErr
           | _ \<Rightarrow> []) = []"
    by (simp add: ValidateRequest_code split: option.splits go_error.splits)
  have b: "filter (\<lambda>v. fv_Code v = ''DUPLICATE_TITLE'')
          (if t_Status task = STATUS_COMPLETED
           then (case (t_DueDate task, t_UpdateTime task) of
                   (Some dueDate, Some updateTime) \<Rightarrow>
                     if updateTime > dueDate
                     then [\<lparr>fv_Field = ''due_date'',
                            fv_Description = ''Task was completed after the due date'',
                            fv_Code = AppErrorCode_String OVERDUE_COMPLETION\<rparr>]
                     else []
                 | _ \<Rightarrow> [])
           else []) = []"
    by (cases "t_Status task = STATUS_COMPLETED"; cases "t_DueDate task";
        cases "t_UpdateTime task"; simp)
  show ?thesis
    unfolding ValidateTask_violations_def filter_append a b
    by (simp add: tagFormat_code duplicateTag_code)
qed

lemma ValidateTask_code:
  "ValidateTask pv task traceID = Some (AppErr appErr) \<Longrightarrow>
     filter (\<lambda>v. fv_Code v = ''DUPLICATE_TITLE'') (FieldViolations appErr) = []"
  by (auto simp: ValidateTask_def Let_def NewValidationFailed_def ValidateTask_violations_code
      split: if_splits)

lemma validateEach_code:
  "filter (\<lambda>v. fv_Code v = ''DUPLICATE_TITLE'') (validateEach pv traceID i reqs) = []"
proof (induction pv traceID i reqs rule: validateEach.induct)
  case (1 pv traceID i)
  then show ?case by simp
next
  case (2 pv traceID i createReq rest)
  have "filter (\<lambda>v. fv_Code v = ''DUPLICATE_TITLE'')
          (case req_Task createReq of
             None \<Rightarrow>
               [\<lparr>fv_Field = ''requests['' @ Sprintf_d i @ ''].task'',
                 fv_Description = ''Task is required'',
                 fv_Code = AppErrorCode_String REQUIRED_FIELD\<rparr>]
           | Some task \<Rightarrow>
               (case ValidateTask pv task traceID of
                  Some (AppErr appErr) \<Rightarrow>
                    map (\<lambda>violation.
                           violation\<lparr>fv_Field :=
                             ''requests['' @ Sprintf_d i @ ''].task.'' @ fv_Field violation\<rparr>)
                        (FieldViolations appErr)
                | _ \<Rightarrow> [])) = []"
  proof (cases "req_Task createReq")
    case None
    then show ?thesis by simp
  next
    case (Some task)
    show ?thesis
    proof (cases "ValidateTask pv task traceID")
      case None
      with Some show ?thesis by simp
    next
      case (Some err)
      then show ?thesis
        using \<open>req_Task createReq = Some task\<close> ValidateTask_code [of pv task traceID]
        by (cases err) (auto simp: filter_empty_conv)
    qed
  qed
  with 2 show ?case by simp
qed

lemma duplicateTitleViolations_code:
  "v \<in> set (duplicateTitleViolations m) \<Longrightarrow> fv_Code v = ''DUPLICATE_TITLE''"
  by (induction m rule: duplicateTitleViolations.induct)
     (auto simp: duplicateTitleViolation_def split: if_splits)

lemma filter_batch_violations:
  "filter (\<lambda>v. fv_Code v = ''DUPLICATE_TITLE'') (ValidateBatch_violations pv range_order req traceID)
     = duplicateTitleViolations (range_order (build_titleMap [] 0 (Requests req)))"
proof -
  have a: "filter (\<lambda>v. fv_Code v = ''DUPLICATE_TITLE'') (validateEach pv traceID 0 (Requests req)) = []"
    by (rule validateEach_code)
  have b: "filter (\<lambda>v. fv_Code v = ''DUPLICATE_TITLE'')
             (duplicateTitleViolations (range_order (build_titleMap [] 0 (Requests req))))
           = duplicateTitleViolations (range_order (build_titleMap [] 0 (Requests req)))"
    by (auto simp: filter_id_conv dest: duplicateTitleViolations_code)
  show ?thesis
    by (simp add: ValidateBatch_violations_def a b)
qed

lemma violations_of_ValidateBatchCreateTasks:
  "violations_of (ValidateBatchCreateTasks pv range_order req traceID)
     = ValidateBatch_violations pv range_order req traceID"
  by (simp add: violations_of_def ValidateBatchCreateTasks_def Let_def NewValidationFailed_def)

text \<open>
  The violations of the duplicate-title loop, as a multiset, do not depend on the order
  of the entries; for the map built from a batch they are the expected ones.
\<close>

lemma mset_duplicateTitleViolations:
  "mset (duplicateTitleViolations m) = (\<Sum>entry\<in>#mset m. mset (entry_violations entry))"
  by (induction m rule: duplicateTitleViolations.induct) (simp_all add: entry_violations_def)

lemma duplicateTitleViolations_permuted:
  "mset m' = mset m \<Longrightarrow> mset (duplicateTitleViolations m') = mset (duplicateTitleViolations m)"
  by (simp add: mset_duplicateTitleViolations)

lemma mset_duplicateTitleViolations_flat:
  "(\<And>k indices. (k, indices) \<in> set m \<Longrightarrow> c k = length indices) \<Longrightarrow>
   mset (duplicateTitleViolations m)
     = image_mset (\<lambda>(k, i). duplicateTitleViolation k i)
         (filter_mset (\<lambda>(k, i). c k > 1) (mset (entries_flat m)))"
proof (induction m rule: duplicateTitleViolations.induct)
  case 1
  then show ?case by (simp add: entries_flat_def)
next
  case (2 title indices entries)
  have ck: "c title = length indices" using 2(2) by simp
  have rest: "mset (duplicateTitleViolations entries)
     = image_mset (\<lambda>(k, i). duplicateTitleViolation k i)
         (filter_mset (\<lambda>(k, i). c k > 1) (mset (entries_flat entries)))"
    using 2 by simp
  have hd: "image_mset (\<lambda>(k, i). duplicateTitleViolation k i)
         (filter_mset (\<lambda>(k, i). c k > 1) (mset (map (Pair title) indices)))
     = mset (if length indices > 1 then map (duplicateTitleViolation title) indices else [])"
    by (simp add: ck filter_mset_image_mset multiset.map_comp comp_def)
  have flat: "entries_flat ((title, indices) # entries) = map (Pair title) indices @ entries_flat entries"
    by (simp add: entries_flat_def)
  show ?case
    unfolding flat
    using hd rest by simp
qed

lemma entries_flat_count_notin:
  "k \<notin> fst ` set m \<Longrightarrow> filter (\<lambda>p. fst p = k) (entries_flat m) = []"
  by (induction m) (auto simp: entries_flat_def filter_empty_conv)

lemma entries_flat_count:
  "distinct (map fst m) \<Longrightarrow> (k, indices) \<in> set m \<Longrightarrow>
     length (filter (\<lambda>p. fst p = k) (entries_flat m)) = length indices"
proof (induction m)
  case Nil
  then show ?case by simp
next
  case (Cons e m)
  obtain k' is' where e: "e = (k', is')" by (cases e)
  have flat: "entries_flat (e # m) = map (Pair k') is' @ entries_flat m"
    by (simp add: entries_flat_def e)
  show ?case
  proof (cases "(k, indices) = e")
    case True
    then have "k' = k" "is' = indices" using e by auto
    moreover have "k \<notin> fst ` set m" using Cons.prems(1) e \<open>k' = k\<close> by auto
    ultimately show ?thesis
      unfolding flat by (simp add: entries_flat_count_notin filter_map comp_def)
  next
    case False
    then have mem: "(k, indices) \<in> set m" using Cons.prems(2) by auto
    then have "k \<in> fst ` set m" by force
    then have "k' \<noteq> k" using Cons.prems(1) e by auto
    then have "filter (\<lambda>p. fst p = k) (map (Pair k') is') = []"
      by (simp add: filter_empty_conv)
    then show ?thesis
      unfolding flat using Cons.IH mem Cons.prems(1) by simp
  qed
qed

lemma titleMap_append_flat:
  "mset (entries_flat (titleMap_append m k i)) = add_mset (k, i) (mset (entries_flat m))"
  by (induction m k i rule: titleMap_append.induct) (auto simp: entries_flat_def)

lemma titleMap_append_keys:
  "set (map fst (titleMap_append m k i)) = insert k (set (map fst m))"
  by (induction m k i rule: titleMap_append.induct) auto

lemma titleMap_append_distinct:
  "distinct (map fst m) \<Longrightarrow> distinct (map fst (titleMap_append m k i))"
proof (induction m k i rule: titleMap_append.induct)
  case (1 title i)
  then show ?case by simp
next
  case (2 k indices m title i)
  then show ?case
    using titleMap_append_keys [of m title i] by (auto simp del: set_map)
qed

lemma build_titleMap_distinct:
  "distinct (map fst m) \<Longrightarrow> distinct (map fst (build_titleMap m i reqs))"
  by (induction m i reqs rule: build_titleMap.induct)
     (auto simp: titleMap_append_distinct split: option.splits)

lemma build_titleMap_flat:
  "mset (entries_flat (build_titleMap m i reqs)) = mset (entries_flat m) + mset (title_pairs i reqs)"
  by (induction m i reqs rule: build_titleMap.induct)
     (auto simp: titleMap_append_flat title_of_def split: option.splits)

lemma title_pairs_count:
  "length (filter (\<lambda>p. fst p = k) (title_pairs i reqs)) = occurrences reqs k"
  by (induction i reqs rule: title_pairs.induct)
     (auto simp: occurrences_def split: option.splits)

lemma expected_duplicates_flat:
  "image_mset (\<lambda>(k, i). duplicateTitleViolation k i)
     (filter_mset (\<lambda>(k, i). occurrences batch k > 1) (mset (title_pairs i reqs)))
   = mset (expected_duplicates batch i reqs)"
  by (induction batch i reqs rule: expected_duplicates.induct)
     (auto split: option.splits)

lemma duplicateTitleViolations_build:
  "mset (duplicateTitleViolations (build_titleMap [] 0 reqs)) = mset (expected_duplicates reqs 0 reqs)"
proof -
  let ?m = "build_titleMap [] 0 reqs"
  have d: "distinct (map fst ?m)" by (rule build_titleMap_distinct) simp
  have f: "mset (entries_flat ?m) = mset (title_pairs 0 reqs)"
    using build_titleMap_flat [of "[]" 0 reqs] by (simp add: entries_flat_def)
  have c: "\<And>k indices. (k, indices) \<in> set ?m \<Longrightarrow> occurrences reqs k = length indices"
  proof -
    fix k indices assume mem: "(k, indices) \<in> set ?m"
    have "length indices = length (filter (\<lambda>p. fst p = k) (entries_flat ?m))"
      using entries_flat_count [OF d mem] by simp
    also have "\<dots> = size (filter_mset (\<lambda>p. fst p = k) (mset (entries_flat ?m)))"
      by (metis mset_filter size_mset)
    also have "\<dots> = size (filter_mset (\<lambda>p. fst p = k) (mset (title_pairs 0 reqs)))"
      by (simp only: f)
    also have "\<dots> = length (filter (\<lambda>p. fst p = k) (title_pairs 0 reqs))"
      by (metis mset_filter size_mset)
    also have "\<dots> = occurrences reqs k" by (rule title_pairs_count)
    finally show "occurrences reqs k = length indices" by simp
  qed
  show ?thesis
    using mset_duplicateTitleViolations_flat [of ?m "occurrences reqs", OF c]
    by (simp only: f expected_duplicates_flat)
qed

lemma example_duplicates_map:
  "build_titleMap [] 0 (Requests example_duplicates) = [(''a'', [0, 2]), (''b'', [1, 3])]"
  by (simp add: example_duplicates_def example_task_def)

text \<open>
  Claim C9, as the code has it. Whatever order the run ranges over the title map in,
  the violations of the batch validation with the code \<^verbatim>\<open>DUPLICATE_TITLE\<close> are, counted
  with multiplicity, one for each request that has a task with a non-empty title which
  at least two requests of the batch have: one per occurrence, the first included. Each
  is for the field \<^verbatim>\<open>requests[i].task.title\<close> of its index \<open>i\<close>. Requests without a
  task and tasks with an empty title take no part in the detection.
\<close>

theorem C9_duplicate_titles:
  assumes "mset (range_order (build_titleMap [] 0 (Requests req)))
             = mset (build_titleMap [] 0 (Requests req))"
  shows "mset (filter (\<lambda>v. fv_Code v = ''DUPLICATE_TITLE'')
                 (violations_of (ValidateBatchCreateTasks pv range_order req traceID)))
           = mset (expected_duplicates (Requests req) 0 (Requests req))
         \<and> fv_Field (duplicateTitleViolation title i)
             = ''requests['' @ Sprintf_d i @ ''].task.title''
         \<and> fv_Code (duplicateTitleViolation title i) = ''DUPLICATE_TITLE''"
  using duplicateTitleViolations_permuted [OF assms]
  by (simp add: violations_of_ValidateBatchCreateTasks filter_batch_violations
      duplicateTitleViolations_build duplicateTitleViolation_def)

theorem C9_witness:
  "mset (rev (build_titleMap [] 0 (Requests example_duplicates)))
     = mset (build_titleMap [] 0 (Requests example_duplicates))
   \<and> mset (filter (\<lambda>v. fv_Code v = ''DUPLICATE_TITLE'')
              (violations_of (ValidateBatchCreateTasks example_pv rev example_duplicates ''trace-1'')))
       = mset [duplicateTitleViolation ''a'' 0, duplicateTitleViolation ''b'' 1,
               duplicateTitleViolation ''a'' 2, duplicateTitleViolation ''b'' 3]"
proof -
  have h: "mset (rev (build_titleMap [] 0 (Requests example_duplicates)))
     = mset (build_titleMap [] 0 (Requests example_duplicates))"
    by simp
  have e: "expected_duplicates (Requests example_duplicates) 0 (Requests example_duplicates)
     = [duplicateTitleViolation ''a'' 0, duplicateTitleViolation ''b'' 1,
        duplicateTitleViolation ''a'' 2, duplicateTitleViolation ''b'' 3]"
    by (simp add: example_duplicates_def example_task_def title_of_def occurrences_def
        numeral_2_eq_2 numeral_3_eq_3)
  from C9_duplicate_titles [where range_order = rev and req = example_duplicates
      and pv = example_pv and traceID = "''trace-1''", OF h]
  show ?thesis using h unfolding e by blast
qed

text \<open>
  Claim C9 as stated fails for the empty title: two requests whose tasks both have the
  empty title share it, and the validation emits no violation with the code
  \<^verbatim>\<open>DUPLICATE_TITLE\<close> for them.
\<close>

theorem C9_counterexample:
  "title_of (Requests example_untitled ! 0) = None
   \<and> map (map_option t_Title \<circ> req_Task) (Requests example_untitled) = [Some [], Some []]
   \<and> violations_of (ValidateBatchCreateTasks example_pv (\<lambda>entries. entries) example_untitled ''trace-1'')
       = [\<lparr>fv_Field = ''requests[0].task.title'',
           fv_Description = ''Task title is required'',
           fv_Code = ''REQUIRED_FIELD''\<rparr>,
          \<lparr>fv_Field = ''requests[1].task.title'',
           fv_Description = ''Task title is required'',
           fv_Code = ''REQUIRED_FIELD''\<rparr>]"
  by (simp add: ValidateBatchCreateTasks_def ValidateBatch_violations_def ValidateTask_def
      ValidateTask_violations_def ValidateRequest_def example_pv_def formatFieldPath_def
      mapConstraintToCode_def example_task_def NewValidationFailed_def Let_def
      violations_of_def Sprintf_d.simps example_untitled_def title_of_def)

section \<open>The order of the violations\<close>

text \<open>
  Claim C3 fails on the code. For the batch with the titles a, b, a, b, a run that ranges
  over the title map in the order a, b and a run that ranges over it in the order b, a
  both are runs of the program, and they return the duplicate-title violations in
  different orders: the results of the two runs differ.
\<close>

theorem C3_order_depends_on_map_iteration:
  "mset (rev (build_titleMap [] 0 (Requests example_duplicates)))
     = mset (build_titleMap [] 0 (Requests example_duplicates))
   \<and> violations_of (ValidateBatchCreateTasks example_pv (\<lambda>entries. entries) example_duplicates ''trace-1'')
       = [duplicateTitleViolation ''a'' 0, duplicateTitleViolation ''a'' 2,
          duplicateTitleViolation ''b'' 1, duplicateTitleViolation ''b'' 3]
   \<and> violations_of (ValidateBatchCreateTasks example_pv rev example_duplicates ''trace-1'')
       = [duplicateTitleViolation ''b'' 1, duplicateTitleViolation ''b'' 3,
          duplicateTitleViolation ''a'' 0, duplicateTitleViolation ''a'' 2]
   \<and> ValidateBatchCreateTasks example_pv (\<lambda>entries. entries) example_duplicates ''trace-1''
       \<noteq> ValidateBatchCreateTasks example_pv rev example_duplicates ''trace-1''"
proof -
  have m: "build_titleMap [] 0 (Requests example_duplicates) = [(''a'', [0, 2]), (''b'', [1, 3])]"
    by (rule example_duplicates_map)
  have each: "validateEach example_pv ''trace-1'' 0 (Requests example_duplicates) = []"
    by (simp add: example_duplicates_def ValidateTask_def ValidateTask_violations_def
        ValidateRequest_def example_pv_def example_task_def Let_def)
  have len: "length (Requests example_duplicates) = 4"
    by (simp add: example_duplicates_def)
  have a: "ValidateBatch_violations example_pv (\<lambda>entries. entries) example_duplicates ''trace-1''
       = [duplicateTitleViolation ''a'' 0, duplicateTitleViolation ''a'' 2,
          duplicateTitleViolation ''b'' 1, duplicateTitleViolation ''b'' 3]"
    by (simp add: ValidateBatch_violations_def m each len)
  have b: "ValidateBatch_violations example_pv rev example_duplicates ''trace-1''
       = [duplicateTitleViolation ''b'' 1, duplicateTitleViolation ''b'' 3,
          duplicateTitleViolation ''a'' 0, duplicateTitleViolation ''a'' 2]"
    by (simp add: ValidateBatch_violations_def m each len)
  have ne: "duplicateTitleViolation ''a'' 0 \<noteq> duplicateTitleViolation ''b'' 1"
    by (simp add: duplicateTitleViolation_def)
  have c: "ValidateBatchCreateTasks example_pv (\<lambda>entries. entries) example_duplicates ''trace-1''
       \<noteq> ValidateBatchCreateTasks example_pv rev example_duplicates ''trace-1''"
    using ne by (simp add: ValidateBatchCreateTasks_def Let_def a b NewValidationFailed_def)
  show ?thesis
    using a b c by (simp add: violations_of_ValidateBatchCreateTasks m)
qed

section \<open>Batch creation\<close>

lemma example_batch_violations:
  "ValidateBatch_violations example_pv (\<lambda>entries. entries) example_batch ''trace-1''
     = [\<lparr>fv_Field = ''requests[1].task.title'',
         fv_Description = ''Task title is required'',
         fv_Code = ''REQUIRED_FIELD''\<rparr>,
        \<lparr>fv_Field = ''requests[3].task'',
         fv_Description = ''Task is required'',
         fv_Code = ''REQUIRED_FIELD''\<rparr>]"
  by (simp add: ValidateBatch_violations_def ValidateTask_def
      ValidateTask_violations_def ValidateRequest_def example_pv_def formatFieldPath_def
      mapConstraintToCode_def example_task_def NewValidationFailed_def Let_def
      example_batch_def Sprintf_d.simps)

lemma validateEach_append:
  "validateEach pv traceID i (xs @ ys)
     = validateEach pv traceID i xs @ validateEach pv traceID (i + length xs) ys"
  by (induction pv traceID i xs rule: validateEach.induct) simp_all

lemma example_batch_missing_task:
  "\<lparr>fv_Field = ''requests[3].task'',
    fv_Description = ''Task is required'',
    fv_Code = ''REQUIRED_FIELD''\<rparr>
   \<in> set (ValidateBatch_violations pv range_order example_batch traceID)"
proof -
  have "Requests example_batch
      = [\<lparr>req_Task = Some (example_task ''Valid Task 1'')\<rparr>,
         \<lparr>req_Task = Some (example_task [])\<rparr>,
         \<lparr>req_Task = Some (example_task ''Valid Task 2'')\<rparr>] @ [\<lparr>req_Task = None\<rparr>]"
    by (simp add: example_batch_def)
  then have "validateEach pv traceID 0 (Requests example_batch)
      = validateEach pv traceID 0
          [\<lparr>req_Task = Some (example_task ''Valid Task 1'')\<rparr>,
           \<lparr>req_Task = Some (example_task [])\<rparr>,
           \<lparr>req_Task = Some (example_task ''Valid Task 2'')\<rparr>]
        @ [\<lparr>fv_Field = ''requests[3].task'',
            fv_Description = ''Task is required'',
            fv_Code = ''REQUIRED_FIELD''\<rparr>]"
    by (simp only: validateEach_append) (simp add: Sprintf_d.simps)
  then show ?thesis
    by (simp add: ValidateBatch_violations_def)
qed

lemma example_loop:
  "batchLoop example_env empty_world 0 (Requests example_batch) [] []
     = (\<lparr>repo =
           \<lparr>r_tasks =
              [''id-0'' \<mapsto>
                 \<lparr>t_Name = ''tasks/id-0'', t_Title = ''Valid Task 1'', t_Description = [],
                  t_Status = STATUS_PENDING, t_Priority = PRIORITY_MEDIUM,
                  t_DueDate = None, t_Tags = [], t_CreateTime = Some 1000,
                  t_UpdateTime = Some 1001, t_CreatedBy = ''anonymous''\<rparr>,
               ''id-1'' \<mapsto>
                 \<lparr>t_Name = ''tasks/id-1'', t_Title = ''Valid Task 2'', t_Description = [],
                  t_Status = STATUS_PENDING, t_Priority = PRIORITY_MEDIUM,
                  t_DueDate = None, t_Tags = [], t_CreateTime = Some 1002,
                  t_UpdateTime = Some 1003, t_CreatedBy = ''anonymous''\<rparr>],
            r_index = [''Valid Task 1'' \<mapsto> ''id-0'', ''Valid Task 2'' \<mapsto> ''id-1'']\<rparr>,
         uuids_drawn = 2, clock_reads = 4\<rparr>,
        [\<lparr>t_Name = ''tasks/id-0'', t_Title = ''Valid Task 1'', t_Description = [],
          t_Status = STATUS_PENDING, t_Priority = PRIORITY_MEDIUM,
          t_DueDate = None, t_Tags = [], t_CreateTime = Some 1000,
          t_UpdateTime = Some 1001, t_CreatedBy = ''anonymous''\<rparr>,
         \<lparr>t_Name = ''tasks/id-1'', t_Title = ''Valid Task 2'', t_Description = [],
          t_Status = STATUS_PENDING, t_Priority = PRIORITY_MEDIUM,
          t_DueDate = None, t_Tags = [], t_CreateTime = Some 1002,
          t_UpdateTime = Some 1003, t_CreatedBy = ''anonymous''\<rparr>],
        [''Task 1: gRPC Code: InvalidArgument, App Code: VALIDATION_FAILED, Title: Validation Failed, Detail: The request contains 1 validation errors'',
         ''Task 3: gRPC Code: InvalidArgument, App Code: VALIDATION_FAILED, Title: Validation Failed, Detail: The request contains validation errors''])"
  by (simp add: example_batch_def CreateTask_def ValidateTask_def ValidateTask_violations_def
      ValidateRequest_def example_pv_def example_task_def Let_def example_env_def
      empty_world_def repo_GetTaskByTitle_def repo_GetTask_def repo_CreateTask_def
      extractID_def Sprintf_d.simps NewValidationFailed_def NewRequiredField_def
      AppError_Error_def formatFieldPath_def mapConstraintToCode_def)

text \<open>
  Claim C2 fails on the code. For the batch of the README and of the test client, with
  two valid and two invalid requests, \<^verbatim>\<open>BatchCreateTasks\<close> returns the error of the
  batch validation before its loop runs, whatever the validator, the state and the rest
  of the environment are: the request without a task alone is a violation. The state is
  unchanged, so nothing is created. With the example validator the error has the two
  violations of the two invalid requests. The loop that the early return skips does
  what the claim says on this batch: it creates the two valid tasks, stores them, and
  records one error for each of the two invalid requests.
\<close>

theorem C2_readme_batch_rejected:
  "fst (BatchCreateTasks env s example_batch) = s
   \<and> fst (snd (BatchCreateTasks env s example_batch))
       = Inl (AppErr (NewValidationFailed
           (ValidateBatch_violations (env_pv env) (env_range_order env) example_batch
              (env_traceID env))
           (env_traceID env)))
   \<and> \<lparr>fv_Field = ''requests[3].task'',
        fv_Description = ''Task is required'',
        fv_Code = ''REQUIRED_FIELD''\<rparr>
       \<in> set (ValidateBatch_violations (env_pv env) (env_range_order env) example_batch
                (env_traceID env))
   \<and> BatchCreateTasks example_env empty_world example_batch
       = (empty_world,
          Inl (AppErr (NewValidationFailed
            [\<lparr>fv_Field = ''requests[1].task.title'',
              fv_Description = ''Task title is required'',
              fv_Code = ''REQUIRED_FIELD''\<rparr>,
             \<lparr>fv_Field = ''requests[3].task'',
              fv_Description = ''Task is required'',
              fv_Code = ''REQUIRED_FIELD''\<rparr>] ''trace-1'')),
          [attribute_String ''validation.error''
             ''gRPC Code: InvalidArgument, App Code: VALIDATION_FAILED, Title: Validation Failed, Detail: The request contains 2 validation errors''])
   \<and> fst (snd (batchLoop example_env empty_world 0 (Requests example_batch) [] []))
       = [\<lparr>t_Name = ''tasks/id-0'', t_Title = ''Valid Task 1'', t_Description = [],
           t_Status = STATUS_PENDING, t_Priority = PRIORITY_MEDIUM,
           t_DueDate = None, t_Tags = [], t_CreateTime = Some 1000,
           t_UpdateTime = Some 1001, t_CreatedBy = ''anonymous''\<rparr>,
          \<lparr>t_Name = ''tasks/id-1'', t_Title = ''Valid Task 2'', t_Description = [],
           t_Status = STATUS_PENDING, t_Priority = PRIORITY_MEDIUM,
           t_DueDate = None, t_Tags = [], t_CreateTime = Some 1002,
           t_UpdateTime = Some 1003, t_CreatedBy = ''anonymous''\<rparr>]
   \<and> snd (snd (batchLoop example_env empty_world 0 (Requests example_batch) [] []))
       = [''Task 1: gRPC Code: InvalidArgument, App Code: VALIDATION_FAILED, Title: Validation Failed, Detail: The request contains 1 validation errors'',
          ''Task 3: gRPC Code: InvalidArgument, App Code: VALIDATION_FAILED, Title: Validation Failed, Detail: The request contains validation errors'']
   \<and> map_option t_Title
         (r_tasks (repo (fst (batchLoop example_env empty_world 0 (Requests example_batch) [] [])))
            ''id-1'')
       = Some ''Valid Task 2''"
proof -
  let ?vs = "ValidateBatch_violations (env_pv env) (env_range_order env) example_batch
               (env_traceID env)"
  have mem: "\<lparr>fv_Field = ''requests[3].task'',
        fv_Description = ''Task is required'',
        fv_Code = ''REQUIRED_FIELD''\<rparr> \<in> set ?vs"
    by (rule example_batch_missing_task)
  then have "?vs \<noteq> []" by auto
  then have v: "ValidateBatchCreateTasks (env_pv env) (env_range_order env) example_batch
                  (env_traceID env)
                = Some (AppErr (NewValidationFailed ?vs (env_traceID env)))"
    by (simp add: ValidateBatchCreateTasks_def Let_def)
  have a: "fst (BatchCreateTasks env s example_batch) = s"
    "fst (snd (BatchCreateTasks env s example_batch))
       = Inl (AppErr (NewValidationFailed ?vs (env_traceID env)))"
    by (simp_all add: BatchCreateTasks_def v)
  have e: "env_pv example_env = example_pv" "env_range_order example_env = (\<lambda>entries. entries)"
    "env_traceID example_env = ''trace-1''"
    by (simp_all add: example_env_def)
  have b: "BatchCreateTasks example_env empty_world example_batch
       = (empty_world,
          Inl (AppErr (NewValidationFailed
            [\<lparr>fv_Field = ''requests[1].task.title'',
              fv_Description = ''Task title is required'',
              fv_Code = ''REQUIRED_FIELD''\<rparr>,
             \<lparr>fv_Field = ''requests[3].task'',
              fv_Description = ''Task is required'',
              fv_Code = ''REQUIRED_FIELD''\<rparr>] ''trace-1'')),
          [attribute_String ''validation.error''
             ''gRPC Code: InvalidArgument, App Code: VALIDATION_FAILED, Title: Validation Failed, Detail: The request contains 2 validation errors''])"
    by (simp add: BatchCreateTasks_def ValidateBatchCreateTasks_def Let_def e
        example_batch_violations)
       (simp add: NewValidationFailed_def AppError_Error_def Sprintf_d.simps)
  show ?thesis
    using a mem b by (simp add: example_loop)
qed

end
